theory Spec2Isabelle
  imports Main
begin

section \<open>The data model of FpsCheck.py\<close>

text \<open>
  The records of the submission are read with \<^verbatim>\<open>fpset.get(key, None)\<close>: every field,
  the primary too, may be absent, which Python reads as \<^verbatim>\<open>None\<close>. A JSON object is an
  association list in the order of the document, with distinct keys.
\<close>

type_synonym site = string

record fps_record =
  rec_primary :: "site option"
  rec_ccTLDs :: "(site \<times> site list) list option"
  rec_associatedSites :: "site list option"
  rec_serviceSites :: "site list option"
  rec_rationaleBySite :: "(site \<times> string) list option"

text \<open>
  Modelled from the spec: class \<^verbatim>\<open>FpsSet\<close> (module FpsSet is imported by FpsCheck.py
  and is not among the sources). The fields are the ones FpsCheck.py reads, in the order
  of the constructor call \<^verbatim>\<open>FpsSet(ccTLDs, primary, associated_sites, service_sites)\<close>.
  Each holds what the constructor was given, \<^verbatim>\<open>None\<close> included.
\<close>

record FpsSet =
  ccTLDs :: "(site \<times> site list) list option"
  primary :: "site option"
  associated_sites :: "site list option"
  service_sites :: "site list option"

text \<open>
  \<^verbatim>\<open>check_sets\<close>: a dict primary -> FpsSet, in insertion order. \<^verbatim>\<open>load_sets\<close> builds it and
  \<^verbatim>\<open>has_all_rationales\<close> indexes it with \<^verbatim>\<open>fpset.get('primary')\<close>, so that for them a key
  can be \<^verbatim>\<open>None\<close>. The other checkers are documented on a dictionary of string -> FpsSet
  and use each key as a string.
\<close>

type_synonym loaded_sets = "(site option \<times> FpsSet) list"

type_synonym check_sets = "(site \<times> FpsSet) list"

text \<open>Python truth values of an optional list or dict: \<^verbatim>\<open>None\<close> and the empty one are false.\<close>

fun truthy :: "'a list option \<Rightarrow> bool" where
  "truthy None = False"
| "truthy (Some xs) = (xs \<noteq> [])"

section \<open>Python exceptions and container reads\<close>

text \<open>
  The exceptions the checkers can meet. \<open>Raised m\<close> is any exception thrown by a
  collaborator (urllib, json, requests) whose \<^verbatim>\<open>str()\<close> is \<open>m\<close>; the others are raised by
  the interpreter on the operations of FpsCheck.py itself.
\<close>

datatype py_exn = ValueError | KeyError | TypeError | AttributeError | IndexError
  | Raised string

text \<open>\<^verbatim>\<open>d[k]\<close> on a dict.\<close>

definition dict_get :: "('k \<times> 'v) list \<Rightarrow> 'k \<Rightarrow> py_exn + 'v" where
  "dict_get d k = (case map_of d k of None \<Rightarrow> Inl KeyError | Some v \<Rightarrow> Inr v)"

text \<open>The elements of an optional list that has been tested for truth.\<close>

fun elems :: "'a list option \<Rightarrow> 'a list" where
  "elems None = []"
| "elems (Some xs) = xs"

section \<open>load_sets\<close>

definition mk_FpsSet :: "fps_record \<Rightarrow> FpsSet" where
  "mk_FpsSet fpset =
     \<lparr>ccTLDs = rec_ccTLDs fpset, primary = rec_primary fpset,
      associated_sites = rec_associatedSites fpset,
      service_sites = rec_serviceSites fpset\<rparr>"

text \<open>
  The loop of \<^verbatim>\<open>load_sets\<close> over \<^verbatim>\<open>fps_sites['sets']\<close>, on the two locals
  \<^verbatim>\<open>check_sets\<close> and \<^verbatim>\<open>load_sets_errors\<close>. For a primary that is already a key, the
  message is \<^verbatim>\<open>primary + " is already a primary of another site"\<close>, which raises TypeError
  when the primary is \<^verbatim>\<open>None\<close>.
\<close>

fun load_sets_loop ::
  "fps_record list \<Rightarrow> loaded_sets \<Rightarrow> string list \<Rightarrow> py_exn + loaded_sets \<times> string list" where
  "load_sets_loop [] check_sets load_sets_errors = Inr (check_sets, load_sets_errors)"
| "load_sets_loop (fpset # rest) check_sets load_sets_errors =
     (if rec_primary fpset \<in> set (map fst check_sets)
      then (case rec_primary fpset of
              None \<Rightarrow> Inl TypeError
            | Some p \<Rightarrow>
                load_sets_loop rest check_sets
                  (load_sets_errors @ [p @ '' is already a primary of another site'']))
      else load_sets_loop rest
             (check_sets @ [(rec_primary fpset, mk_FpsSet fpset)]) load_sets_errors)"

text \<open>
  \<^verbatim>\<open>load_sets\<close> takes the sets of the submission and the error list of the run. It
  returns the dictionary and the error list after \<^verbatim>\<open>self.error_list += load_sets_errors\<close>;
  or it raises, and then the error list of the run is as it was, since the findings of
  the loop are still in the local list.
\<close>

definition load_sets ::
  "fps_record list \<Rightarrow> string list \<Rightarrow> py_exn \<times> string list + loaded_sets \<times> string list" where
  "load_sets sets error_list =
     (case load_sets_loop sets [] [] of
        Inl e \<Rightarrow> Inl (e, error_list)
      | Inr (check_sets, load_sets_errors) \<Rightarrow> Inr (check_sets, error_list @ load_sets_errors))"

section \<open>has_all_rationales\<close>

text \<open>The local \<^verbatim>\<open>sites\<close> after lines 111-116: the associated sites followed by the service
  sites, where each falsy operand is skipped, and \<^verbatim>\<open>service_sites\<close> itself (possibly
  \<^verbatim>\<open>None\<close> or empty) when there are no associated sites.\<close>

definition rationale_sites :: "FpsSet \<Rightarrow> site list option" where
  "rationale_sites fps =
     (let sites = associated_sites fps; service = service_sites fps in
      if truthy sites
      then (if truthy service then Some (elems sites @ elems service) else sites)
      else service)"

text \<open>The loop of lines 119-122 over \<^verbatim>\<open>sites\<close>.\<close>

fun missing_rationales :: "site list \<Rightarrow> (site \<times> string) list \<Rightarrow> string list \<Rightarrow> string list" where
  "missing_rationales [] rationales errs = errs"
| "missing_rationales (site # rest) rationales errs =
     missing_rationales rest rationales
       (if site \<notin> set (map fst rationales)
        then errs @ [''There is no provided rationale for '' @ site]
        else errs)"

text \<open>One iteration of the loop of \<^verbatim>\<open>has_all_rationales\<close>, for one record of the
  submission. \<^verbatim>\<open>check_sets[fpset.get("primary")]\<close> raises KeyError on a missing key; the
  exception leaves the function, and the error list is as it was at that moment.\<close>

definition rationale_body ::
  "loaded_sets \<Rightarrow> fps_record \<Rightarrow> string list \<Rightarrow> py_exn \<times> string list + string list" where
  "rationale_body check_sets fpset errs =
     (case dict_get check_sets (rec_primary fpset) of
        Inl e \<Rightarrow> Inl (e, errs)
      | Inr fps \<Rightarrow>
          (let sites = rationale_sites fps;
               rationales = rec_rationaleBySite fpset;
               errs1 = (case rationales of
                          Some r \<Rightarrow> if truthy sites then missing_rationales (elems sites) r errs
                                    else errs
                        | None \<Rightarrow> errs)
           in Inr (if sites \<noteq> None \<and> rationales = None
                   then errs1 @ [''A rationaleBySite field is required for this set, but'' @
                                 '' none is provided. '']
                   else errs1)))"

fun has_all_rationales ::
  "fps_record list \<Rightarrow> loaded_sets \<Rightarrow> string list \<Rightarrow> py_exn \<times> string list + string list" where
  "has_all_rationales [] check_sets errs = Inr errs"
| "has_all_rationales (fpset # rest) check_sets errs =
     (case rationale_body check_sets fpset errs of
        Inl raised \<Rightarrow> Inl raised
      | Inr errs' \<Rightarrow> has_all_rationales rest check_sets errs')"

section \<open>check_exclusivity\<close>

text \<open>\<^verbatim>\<open>site_list\<close> is a Python set of strings. \<^verbatim>\<open>set.update(x)\<close> adds the elements of the
  iterable \<open>x\<close>: for a list of sites these are the sites, for a string they are its
  characters (strings of length one).\<close>

definition update_list :: "string set \<Rightarrow> site list \<Rightarrow> string set" where
  "update_list site_list xs = site_list \<union> set xs"

definition update_str :: "string set \<Rightarrow> string \<Rightarrow> string set" where
  "update_str site_list s = site_list \<union> (\<lambda>c. [c]) ` set s"

text \<open>The three role checks share one shape: intersect the role's sites with
  \<^verbatim>\<open>site_list\<close>; report a non-empty overlap, otherwise register the sites. The parameter
  \<open>str_set\<close> is Python's \<^verbatim>\<open>str()\<close> of a set, whose element order the language leaves open.\<close>

definition overlap_check ::
  "(string set \<Rightarrow> string) \<Rightarrow> string \<Rightarrow> site list \<Rightarrow> string set \<times> string list
     \<Rightarrow> string set \<times> string list" where
  "overlap_check str_set msg sites st =
     (case st of (site_list, errs) \<Rightarrow>
        (let overlap = set sites \<inter> site_list in
         if overlap \<noteq> {} then (site_list, errs @ [msg @ str_set overlap])
         else (update_list site_list sites, errs)))"

text \<open>The loop of lines 171-179 over the keys of \<^verbatim>\<open>fps.ccTLDs\<close>; \<^verbatim>\<open>fps.ccTLDs[aliased_site]\<close>
  is the list stored under the key.\<close>

fun exclusivity_ccTLDs ::
  "(string set \<Rightarrow> string) \<Rightarrow> (site \<times> site list) list \<Rightarrow> string set \<times> string list
     \<Rightarrow> string set \<times> string list" where
  "exclusivity_ccTLDs str_set [] st = st"
| "exclusivity_ccTLDs str_set ((aliased_site, alias_sites) # rest) st =
     exclusivity_ccTLDs str_set rest
       (overlap_check str_set
          (''These ccTLD sites are already registered in '' @ ''another first party set: '')
          alias_sites st)"

text \<open>The body of the loop of \<^verbatim>\<open>check_exclusivity\<close> for one entry of \<^verbatim>\<open>check_sets\<close>.\<close>

definition exclusivity_body ::
  "(string set \<Rightarrow> string) \<Rightarrow> site \<times> FpsSet \<Rightarrow> string set \<times> string list
     \<Rightarrow> string set \<times> string list" where
  "exclusivity_body str_set entry st =
     (case entry of (prim, fps) \<Rightarrow>
      case st of (site_list, errs) \<Rightarrow>
        (let st1 = (if prim \<in> site_list
                    then (site_list,
                          errs @ [''This primary is already registered in another first party'' @
                                  '' set: '' @ prim])
                    else (update_str site_list prim, errs));
             st2 = (if truthy (associated_sites fps)
                    then overlap_check str_set
                           (''These associated sites are already registered in '' @
                            ''another first party set: '')
                           (elems (associated_sites fps)) st1
                    else st1);
             st3 = (if truthy (service_sites fps)
                    then overlap_check str_set
                           (''These service sites are already registered in another'' @
                            '' first party set: '')
                           (elems (service_sites fps)) st2
                    else st2)
         in if truthy (ccTLDs fps) then exclusivity_ccTLDs str_set (elems (ccTLDs fps)) st3
            else st3))"

fun exclusivity_loop ::
  "(string set \<Rightarrow> string) \<Rightarrow> check_sets \<Rightarrow> string set \<times> string list
     \<Rightarrow> string set \<times> string list" where
  "exclusivity_loop str_set [] st = st"
| "exclusivity_loop str_set (entry # rest) st =
     exclusivity_loop str_set rest (exclusivity_body str_set entry st)"

text \<open>\<^verbatim>\<open>check_exclusivity\<close> starts from the empty \<^verbatim>\<open>site_list\<close> and returns the error list.\<close>

definition check_exclusivity ::
  "(string set \<Rightarrow> string) \<Rightarrow> check_sets \<Rightarrow> string list \<Rightarrow> string list" where
  "check_exclusivity str_set check_sets errs =
     snd (exclusivity_loop str_set check_sets ({}, errs))"

section \<open>find_non_https_urls\<close>

text \<open>\<^verbatim>\<open>s.startswith(p)\<close>.\<close>

definition startswith :: "string \<Rightarrow> string \<Rightarrow> bool" where
  "startswith s p = (take (length p) s = p)"

definition url_is_https :: "site \<Rightarrow> bool" where
  "url_is_https site = startswith site ''https://''"

text \<open>The loop of lines 217-221 over the sites of one alias.\<close>

fun https_aliased_sites :: "site list \<Rightarrow> string list \<Rightarrow> string list" where
  "https_aliased_sites [] errs = errs"
| "https_aliased_sites (aliased_site # rest) errs =
     https_aliased_sites rest
       (if \<not> url_is_https aliased_site
        then errs @ [''The provided alias site does not begin with'' @ '' https:// '' @ aliased_site]
        else errs)"

text \<open>The loop of lines 212-221 over the aliases of one set.\<close>

fun https_ccTLDs :: "(site \<times> site list) list \<Rightarrow> string list \<Rightarrow> string list" where
  "https_ccTLDs [] errs = errs"
| "https_ccTLDs ((alias, aliased_sites) # rest) errs =
     https_ccTLDs rest
       (https_aliased_sites aliased_sites
          (if \<not> url_is_https alias
           then errs @ [''The provided alias does not begin with https:// '' @ alias]
           else errs))"

fun https_associated :: "site list \<Rightarrow> string list \<Rightarrow> string list" where
  "https_associated [] errs = errs"
| "https_associated (associated_site # rest) errs =
     https_associated rest
       (if \<not> url_is_https associated_site
        then errs @ [''The provided associated site does not begin with'' @ '' https:// '' @
                     associated_site]
        else errs)"

fun https_service :: "site list \<Rightarrow> string list \<Rightarrow> string list" where
  "https_service [] errs = errs"
| "https_service (service_site # rest) errs =
     https_service rest
       (if \<not> url_is_https service_site
        then errs @ [''The provided service site does not begin with'' @ '' https:// '' @
                     service_site]
        else errs)"

text \<open>The body of the loop of \<^verbatim>\<open>find_non_https_urls\<close> for one entry of \<^verbatim>\<open>check_sets\<close>.\<close>

definition https_body :: "site \<times> FpsSet \<Rightarrow> string list \<Rightarrow> string list" where
  "https_body entry errs =
     (case entry of (prim, fps) \<Rightarrow>
        (let errs1 = (if \<not> url_is_https prim
                      then errs @ [''The provided primary site does not begin with https:// '' @ prim]
                      else errs);
             errs2 = (if truthy (ccTLDs fps) then https_ccTLDs (elems (ccTLDs fps)) errs1
                      else errs1);
             errs3 = (if truthy (associated_sites fps)
                      then https_associated (elems (associated_sites fps)) errs2 else errs2)
         in if truthy (service_sites fps)
            then https_service (elems (service_sites fps)) errs3 else errs3))"

fun find_non_https_urls :: "check_sets \<Rightarrow> string list \<Rightarrow> string list" where
  "find_non_https_urls [] errs = errs"
| "find_non_https_urls (entry # rest) errs = find_non_https_urls rest (https_body entry errs)"

section \<open>find_invalid_alias_eSLDs\<close>

text \<open>\<^verbatim>\<open>s.split(".")\<close>: the pieces of \<open>s\<close> between the dots; never an empty list.\<close>

fun split_dot :: "string \<Rightarrow> string list" where
  "split_dot [] = [[]]"
| "split_dot (c # cs) =
     (if c = CHR ''.'' then [] # split_dot cs
      else (case split_dot cs of [] \<Rightarrow> [[c]] | w # ws \<Rightarrow> (c # w) # ws))"

text \<open>\<^verbatim>\<open>s.split(".", 1)\<close>: at most one split, at the first dot.\<close>

fun split_dot1 :: "string \<Rightarrow> string list" where
  "split_dot1 [] = [[]]"
| "split_dot1 (c # cs) =
     (if c = CHR ''.'' then [[], cs]
      else (case split_dot1 cs of [] \<Rightarrow> [[c]] | w # ws \<Rightarrow> (c # w) # ws))"

text \<open>\<^verbatim>\<open>a, b = xs\<close>: ValueError unless \<open>xs\<close> has exactly two elements.\<close>

fun unpack2 :: "'a list \<Rightarrow> py_exn + 'a \<times> 'a" where
  "unpack2 [a, b] = Inr (a, b)"
| "unpack2 xs = Inl ValueError"

text \<open>\<^verbatim>\<open>xs[0]\<close> and \<^verbatim>\<open>xs[-1]\<close>: IndexError on the empty list.\<close>

fun index_first :: "'a list \<Rightarrow> py_exn + 'a" where
  "index_first [] = Inl IndexError"
| "index_first (x # xs) = Inr x"

fun index_last :: "'a list \<Rightarrow> py_exn + 'a" where
  "index_last [] = Inl IndexError"
| "index_last (x # xs) = Inr (last (x # xs))"

text \<open>The comprehension of lines 447-448:
  \<^verbatim>\<open>[(site, site.split(".")[0], site.split(".")[-1]) for site in ...]\<close>.\<close>

fun plus1s :: "site list \<Rightarrow> py_exn + (site \<times> string \<times> string) list" where
  "plus1s [] = Inr []"
| "plus1s (site # rest) =
     (case index_first (split_dot site) of
        Inl e \<Rightarrow> Inl e
      | Inr first \<Rightarrow>
          (case index_last (split_dot site) of
             Inl e \<Rightarrow> Inl e
           | Inr lst \<Rightarrow>
               (case plus1s rest of
                  Inl e \<Rightarrow> Inl e
                | Inr ps \<Rightarrow> Inr ((site, first, lst) # ps))))"

text \<open>The loop of lines 449-459 over \<^verbatim>\<open>plus1s\<close>.\<close>

fun eSLD_loop ::
  "site \<Rightarrow> string \<Rightarrow> string set \<Rightarrow> (site \<times> string \<times> string) list \<Rightarrow> string list
     \<Rightarrow> string list" where
  "eSLD_loop aliased_site aliased_domain icann_check [] errs = errs"
| "eSLD_loop aliased_site aliased_domain icann_check (eSLD # rest) errs =
     (case eSLD of (eSLD0, eSLD1, eSLD2) \<Rightarrow>
        (let errs1 = (if eSLD1 \<noteq> aliased_domain
                      then errs @ [''The following top level domain must match: '' @
                                   aliased_site @ '', but is instead: '' @ eSLD0]
                      else errs);
             errs2 = (if eSLD2 \<notin> icann_check
                      then errs1 @ [''The provided country code: '' @ eSLD2 @ '', in: '' @ eSLD0 @
                                    '' is not a ICANN registered country code'']
                      else errs1)
         in eSLD_loop aliased_site aliased_domain icann_check rest errs2))"

text \<open>
  Lines 428-440, for an aliased site other than the primary. When the set has associated
  sites, \<^verbatim>\<open>sites\<close> is the very list object \<^verbatim>\<open>curr_set.associated_sites\<close>, and
  \<^verbatim>\<open>sites += curr_set.service_sites\<close> extends that object in place: the set leaves the
  check with its service sites appended to its associated sites. Otherwise \<^verbatim>\<open>sites\<close>
  is a fresh list.
\<close>

definition alias_membership :: "site \<Rightarrow> site \<Rightarrow> FpsSet \<Rightarrow> string list \<Rightarrow> FpsSet \<times> string list" where
  "alias_membership prim aliased_site curr_set errs =
     (let sites0 = (if truthy (associated_sites curr_set)
                    then elems (associated_sites curr_set) else []);
          sites = (if truthy (service_sites curr_set)
                   then sites0 @ elems (service_sites curr_set) else sites0);
          curr_set' = (if truthy (associated_sites curr_set)
                       then curr_set\<lparr>associated_sites := Some sites\<rparr> else curr_set)
      in (curr_set',
          if aliased_site \<notin> set sites
          then errs @ [''The aliased site '' @ aliased_site @
                       '' contained within the ccTLDs must be a '' @
                       ''primary, associated site, or service site '' @
                       ''within the firsty pary set for '' @ prim]
          else errs))"

text \<open>
  The body of the loop over the aliased sites of one set (lines 426-459), on the set and
  the error list. An exception leaves the function; the set and the error list are then
  as the statements before it left them.
\<close>

definition alias_body ::
  "string set \<Rightarrow> site \<Rightarrow> site \<times> site list \<Rightarrow> FpsSet \<times> string list
     \<Rightarrow> py_exn \<times> (FpsSet \<times> string list) + FpsSet \<times> string list" where
  "alias_body icanns prim alias st =
     (case alias of (aliased_site, alias_sites) \<Rightarrow>
      case st of (curr_set, errs) \<Rightarrow>
        (let st1 = (if aliased_site \<noteq> prim
                    then alias_membership prim aliased_site curr_set errs
                    else (curr_set, errs))
         in case unpack2 (split_dot1 aliased_site) of
              Inl e \<Rightarrow> Inl (e, st1)
            | Inr (aliased_domain, aliased_tld) \<Rightarrow>
                (let icann_check = (if aliased_tld \<in> icanns then icanns \<union> {''com''}
                                    else icanns)
                 in case plus1s alias_sites of
                      Inl e \<Rightarrow> Inl (e, st1)
                    | Inr ps \<Rightarrow>
                        Inr (fst st1,
                             eSLD_loop aliased_site aliased_domain icann_check ps (snd st1)))))"

fun alias_loop ::
  "string set \<Rightarrow> site \<Rightarrow> (site \<times> site list) list \<Rightarrow> FpsSet \<times> string list
     \<Rightarrow> py_exn \<times> (FpsSet \<times> string list) + FpsSet \<times> string list" where
  "alias_loop icanns prim [] st = Inr st"
| "alias_loop icanns prim (alias # rest) st =
     (case alias_body icanns prim alias st of
        Inl raised \<Rightarrow> Inl raised
      | Inr st' \<Rightarrow> alias_loop icanns prim rest st')"

text \<open>
  \<^verbatim>\<open>find_invalid_alias_eSLDs\<close> over the entries of \<^verbatim>\<open>check_sets\<close>. It returns the
  dictionary as the in-place extension left it, and the error list; or it raises, and
  the dictionary and the error list are as they were at that moment. The first argument
  collects the entries already processed.
\<close>

fun alias_sets ::
  "string set \<Rightarrow> check_sets \<Rightarrow> check_sets \<Rightarrow> string list
     \<Rightarrow> py_exn \<times> check_sets \<times> string list + check_sets \<times> string list" where
  "alias_sets icanns processed [] errs = Inr (processed, errs)"
| "alias_sets icanns processed ((prim, curr_set) # rest) errs =
     (if truthy (ccTLDs curr_set)
      then (case alias_loop icanns prim (elems (ccTLDs curr_set)) (curr_set, errs) of
              Inl (e, curr_set', errs') \<Rightarrow>
                Inl (e, processed @ (prim, curr_set') # rest, errs')
            | Inr (curr_set', errs') \<Rightarrow>
                alias_sets icanns (processed @ [(prim, curr_set')]) rest errs')
      else alias_sets icanns (processed @ [(prim, curr_set)]) rest errs)"

definition find_invalid_alias_eSLDs ::
  "string set \<Rightarrow> check_sets \<Rightarrow> string list
     \<Rightarrow> py_exn \<times> check_sets \<times> string list + check_sets \<times> string list" where
  "find_invalid_alias_eSLDs icanns check_sets errs = alias_sets icanns [] check_sets errs"

section \<open>Fetched documents and the network\<close>

text \<open>
  What \<^verbatim>\<open>json.load\<close> can return: any JSON value. A float is \<open>PFloat m e\<close>, the value
  \<open>m * 2 ^ e\<close>; the checkers never compute with numbers.
\<close>

datatype pyval = PNone | PBool bool | PInt int | PFloat int int | PStr string
  | PList "pyval list" | PDict "(string \<times> pyval) list"

text \<open>Iterating a value: the elements of a list, the keys of a dict, the characters of a
  string; TypeError on anything else.\<close>

fun py_iter :: "pyval \<Rightarrow> py_exn + pyval list" where
  "py_iter (PList xs) = Inr xs"
| "py_iter (PDict kvs) = Inr (map (\<lambda>kv. PStr (fst kv)) kvs)"
| "py_iter (PStr s) = Inr (map (\<lambda>c. PStr [c]) s)"
| "py_iter v = Inl TypeError"

fun hashable :: "pyval \<Rightarrow> bool" where
  "hashable (PList xs) = False"
| "hashable (PDict kvs) = False"
| "hashable v = True"

text \<open>\<^verbatim>\<open>set(v)\<close>: TypeError when \<open>v\<close> is not iterable or holds a list or a dict.\<close>

definition py_set :: "pyval \<Rightarrow> py_exn + pyval set" where
  "py_set v =
     (case py_iter v of
        Inl e \<Rightarrow> Inl e
      | Inr xs \<Rightarrow> if list_all hashable xs then Inr (set xs) else Inl TypeError)"

text \<open>Indexing a sequence with a Python integer; a negative index counts from the end.\<close>

definition seq_index :: "'a list \<Rightarrow> int \<Rightarrow> py_exn + 'a" where
  "seq_index xs i =
     (if 0 \<le> i \<and> i < int (length xs) then Inr (xs ! nat i)
      else if i < 0 \<and> - int (length xs) \<le> i then Inr (xs ! nat (int (length xs) + i))
      else Inl IndexError)"

text \<open>\<^verbatim>\<open>v[k]\<close>. A bool is an integer; a dict raises KeyError on a missing key and TypeError
  on an unhashable one; a list or string takes integers only; nothing else can be
  subscripted.\<close>

fun py_getitem :: "pyval \<Rightarrow> pyval \<Rightarrow> py_exn + pyval" where
  "py_getitem (PDict kvs) (PStr k) = dict_get kvs k"
| "py_getitem (PDict kvs) k = (if hashable k then Inl KeyError else Inl TypeError)"
| "py_getitem (PList xs) (PInt i) = seq_index xs i"
| "py_getitem (PList xs) (PBool b) = seq_index xs (if b then 1 else 0)"
| "py_getitem (PList xs) k = Inl TypeError"
| "py_getitem (PStr s) (PInt i) = map_sum id (\<lambda>c. PStr [c]) (seq_index s i)"
| "py_getitem (PStr s) (PBool b) = map_sum id (\<lambda>c. PStr [c]) (seq_index s (if b then 1 else 0))"
| "py_getitem (PStr s) k = Inl TypeError"
| "py_getitem v k = Inl TypeError"

text \<open>\<^verbatim>\<open>A ^ B\<close> on sets.\<close>

definition sym_diff :: "'a set \<Rightarrow> 'a set \<Rightarrow> 'a set" where
  "sym_diff A B = (A - B) \<union> (B - A)"

text \<open>An HTTP response of \<^verbatim>\<open>requests.get\<close>, by the three attributes the checkers read.
  \<open>headers r name\<close> is the lookup \<^verbatim>\<open>r.headers[name]\<close>, \<open>None\<close> when
  \<^verbatim>\<open>name not in r.headers\<close>.\<close>

record response =
  status_code :: int
  headers :: "string \<Rightarrow> string option"
  url :: string

text \<open>
  The collaborators of a run. The \<open>n\<close>-th request of the run (counting from 0) to address
  \<open>a\<close> has the outcome \<open>open_and_load_json w n a\<close> or \<open>requests_get w n a\<close>: a result,
  or the exception raised. \<open>builtin_str\<close> is \<^verbatim>\<open>str()\<close> of an exception raised by the
  interpreter, \<open>str_sorted\<close> is \<^verbatim>\<open>str(sorted(s))\<close>, which raises TypeError on values
  that have no order, and \<open>field_order\<close> lists the field names in the order in which
  Python enumerates a set of them.
\<close>

record world =
  open_and_load_json :: "nat \<Rightarrow> string \<Rightarrow> py_exn + pyval"
  requests_get :: "nat \<Rightarrow> string \<Rightarrow> py_exn + response"
  builtin_str :: "py_exn \<Rightarrow> string"
  str_sorted :: "pyval set \<Rightarrow> py_exn + string"
  field_order :: "string list"

text \<open>\<^verbatim>\<open>str(inst)\<close>.\<close>

definition str_inst :: "world \<Rightarrow> py_exn \<Rightarrow> string" where
  "str_inst w inst = (case inst of Raised m \<Rightarrow> m | _ \<Rightarrow> builtin_str w inst)"

text \<open>The state of a run: the error list and the number of requests made so far.\<close>

record run =
  error_list :: "string list"
  clock :: nat

definition report :: "string \<Rightarrow> run \<Rightarrow> run" where
  "report msg st = st\<lparr>error_list := error_list st @ [msg]\<rparr>"

definition tick :: "run \<Rightarrow> run" where
  "tick st = st\<lparr>clock := Suc (clock st)\<rparr>"

section \<open>check_list_sites\<close>

definition well_known :: string where
  "well_known = ''/.well-known/first-party-set.json''"

text \<open>The try block of lines 328-337 for one site: the state it leaves, and the
  exception it raised, if any.\<close>

definition site_try :: "world \<Rightarrow> site \<Rightarrow> site \<Rightarrow> run \<Rightarrow> run \<times> py_exn option" where
  "site_try w prim site st =
     (case open_and_load_json w (clock st) (site @ well_known) of
        Inl inst \<Rightarrow> (tick st, Some inst)
      | Inr json_schema \<Rightarrow>
          (case json_schema of
             PDict kvs \<Rightarrow>
               (if ''primary'' \<notin> set (map fst kvs)
                then (report (''The listed associated site site did not have primary'' @
                              '' as a key in its .well-known/first-party-set.json file: '' @
                              site) (tick st), None)
                else (case dict_get kvs ''primary'' of
                        Inl inst \<Rightarrow> (tick st, Some inst)
                      | Inr v \<Rightarrow>
                          if v \<noteq> PStr prim
                          then (report (''The listed associated site '' @ ''did not have '' @
                                        prim @ '' listed as its primary: '' @ site) (tick st),
                                None)
                          else (tick st, None)))
           | _ \<Rightarrow> (tick st, Some AttributeError)))"

text \<open>One iteration of the loop of \<^verbatim>\<open>check_list_sites\<close>: the try block and its handler.\<close>

definition check_site :: "world \<Rightarrow> site \<Rightarrow> site \<Rightarrow> run \<Rightarrow> run" where
  "check_site w prim site st =
     (case site_try w prim site st of
        (st', None) \<Rightarrow> st'
      | (st', Some inst) \<Rightarrow>
          report (''Experienced an error when trying to access '' @ (site @ well_known) @
                  ''; '' @ ''error was: '' @ str_inst w inst) st')"

fun check_list_sites :: "world \<Rightarrow> site \<Rightarrow> site list \<Rightarrow> run \<Rightarrow> run" where
  "check_list_sites w prim [] st = st"
| "check_list_sites w prim (site # rest) st =
     check_list_sites w prim rest (check_site w prim site st)"

section \<open>find_invalid_well_known\<close>

definition acceptable_fields :: "string list" where
  "acceptable_fields = [''ccTLDs'', ''primary'', ''associatedSites'', ''serviceSites'']"

fun py_sites :: "site list option \<Rightarrow> pyval" where
  "py_sites None = PNone"
| "py_sites (Some xs) = PList (map PStr xs)"

fun py_primary :: "site option \<Rightarrow> pyval" where
  "py_primary None = PNone"
| "py_primary (Some p) = PStr p"

fun py_aliases :: "(site \<times> site list) list option \<Rightarrow> pyval" where
  "py_aliases None = PNone"
| "py_aliases (Some d) = PDict (map (\<lambda>kv. (fst kv, PList (map PStr (snd kv)))) d)"

text \<open>
  Modelled from the spec: the attribute \<^verbatim>\<open>relevant_fields_dict\<close> of class FpsSet, which
  is not among the sources: for each field name of the submission, the value the set
  holds for it.
\<close>

definition relevant_fields_dict :: "FpsSet \<Rightarrow> (string \<times> pyval) list" where
  "relevant_fields_dict s =
     [(''ccTLDs'', py_aliases (ccTLDs s)), (''primary'', py_primary (primary s)),
      (''associatedSites'', py_sites (associated_sites s)),
      (''serviceSites'', py_sites (service_sites s))]"

text \<open>\<^verbatim>\<open>set(self.acceptable_fields) & set(json_schema.keys())\<close>, as the list the loop of
  line 369 runs through.\<close>

definition schema_fields :: "world \<Rightarrow> (string \<times> pyval) list \<Rightarrow> string list" where
  "schema_fields w json_schema =
     remdups (filter (\<lambda>f. f \<in> set acceptable_fields \<and> f \<in> set (map fst json_schema))
                (field_order w))"

text \<open>The loop of lines 380-385 over the aliased sites of the fetched \<^verbatim>\<open>ccTLDs\<close>.\<close>

fun ccTLD_differences ::
  "pyval \<Rightarrow> pyval \<Rightarrow> pyval list \<Rightarrow> pyval set \<Rightarrow> py_exn + pyval set" where
  "ccTLD_differences fetched submitted [] d = Inr d"
| "ccTLD_differences fetched submitted (aliased_site # rest) d =
     (case py_getitem fetched aliased_site of
        Inl e \<Rightarrow> Inl e
      | Inr x \<Rightarrow>
     (case py_set x of
        Inl e \<Rightarrow> Inl e
      | Inr sx \<Rightarrow>
     (case py_getitem submitted aliased_site of
        Inl e \<Rightarrow> Inl e
      | Inr y \<Rightarrow>
     (case py_set y of
        Inl e \<Rightarrow> Inl e
      | Inr sy \<Rightarrow> ccTLD_differences fetched submitted rest (d \<union> sym_diff sx sy)))))"

text \<open>Lines 370-385: \<^verbatim>\<open>field_sym_difference\<close> for one field. For the primary it is a
  list of two different values, which \<^verbatim>\<open>sorted\<close> reads as it reads the set of the two.\<close>

definition field_sym_difference ::
  "(string \<times> pyval) list \<Rightarrow> FpsSet \<Rightarrow> string \<Rightarrow> py_exn + pyval set" where
  "field_sym_difference json_schema curr_fps_set field =
     (if field = ''primary''
      then (case dict_get json_schema ''primary'' of
              Inl e \<Rightarrow> Inl e
            | Inr v \<Rightarrow>
                if v \<noteq> py_primary (primary curr_fps_set)
                then Inr {v, py_primary (primary curr_fps_set)} else Inr {})
      else (case dict_get json_schema field of
              Inl e \<Rightarrow> Inl e
            | Inr fetched \<Rightarrow>
           (case py_set fetched of
              Inl e \<Rightarrow> Inl e
            | Inr a \<Rightarrow>
           (case dict_get (relevant_fields_dict curr_fps_set) field of
              Inl e \<Rightarrow> Inl e
            | Inr submitted \<Rightarrow>
           (case py_set submitted of
              Inl e \<Rightarrow> Inl e
            | Inr b \<Rightarrow>
                if field = ''ccTLDs''
                then (case py_iter fetched of
                        Inl e \<Rightarrow> Inl e
                      | Inr ks \<Rightarrow> ccTLD_differences fetched submitted ks (sym_diff a b))
                else Inr (sym_diff a b))))))"

text \<open>The loop of lines 369-390 over the shared fields: the error list it leaves, and
  the exception that ended it, if any.\<close>

fun compare_fields ::
  "world \<Rightarrow> (string \<times> pyval) list \<Rightarrow> FpsSet \<Rightarrow> string list \<Rightarrow> string list
     \<Rightarrow> string list \<times> py_exn option" where
  "compare_fields w json_schema curr_fps_set [] errs = (errs, None)"
| "compare_fields w json_schema curr_fps_set (field # rest) errs =
     (case field_sym_difference json_schema curr_fps_set field of
        Inl e \<Rightarrow> (errs, Some e)
      | Inr d \<Rightarrow>
          if d \<noteq> {}
          then (case str_sorted w d of
                  Inl e \<Rightarrow> (errs, Some e)
                | Inr s \<Rightarrow>
                    compare_fields w json_schema curr_fps_set rest
                      (errs @ [''The following member(s) of '' @ field @
                               '' were not present in both the changelist '' @
                               ''and .well-known/first-party-set.json file: '' @ s]))
          else compare_fields w json_schema curr_fps_set rest errs)"

text \<open>The try block of lines 364-390 for the primary of one set.\<close>

definition primary_try :: "world \<Rightarrow> site \<Rightarrow> FpsSet \<Rightarrow> run \<Rightarrow> run \<times> py_exn option" where
  "primary_try w prim curr_fps_set st =
     (case open_and_load_json w (clock st) (prim @ well_known) of
        Inl inst \<Rightarrow> (tick st, Some inst)
      | Inr doc \<Rightarrow>
          (case doc of
             PDict json_schema \<Rightarrow>
               (case compare_fields w json_schema curr_fps_set
                       (schema_fields w json_schema) (error_list st) of
                  (errs, raised) \<Rightarrow> (tick (st\<lparr>error_list := errs\<rparr>), raised))
           | _ \<Rightarrow> (tick st, Some AttributeError)))"

definition check_primary :: "world \<Rightarrow> site \<Rightarrow> FpsSet \<Rightarrow> run \<Rightarrow> run" where
  "check_primary w prim curr_fps_set st =
     (case primary_try w prim curr_fps_set st of
        (st', None) \<Rightarrow> st'
      | (st', Some inst) \<Rightarrow>
          report (''Experienced an error when trying to access '' @ (prim @ well_known) @
                  ''; error was: '' @ str_inst w inst) st')"

text \<open>The loop of lines 407-409: \<^verbatim>\<open>check_list_sites\<close> is called inside the loop, each
  time on all the alias sites collected so far.\<close>

fun well_known_ccTLDs ::
  "world \<Rightarrow> site \<Rightarrow> (site \<times> site list) list \<Rightarrow> site list \<Rightarrow> run \<Rightarrow> run" where
  "well_known_ccTLDs w prim [] ccTLD_sites st = st"
| "well_known_ccTLDs w prim ((aliased_site, sites) # rest) ccTLD_sites st =
     well_known_ccTLDs w prim rest (ccTLD_sites @ sites)
       (check_list_sites w prim (ccTLD_sites @ sites) st)"

text \<open>Lines 395-409: the member sites of one set.\<close>

definition check_members :: "world \<Rightarrow> site \<Rightarrow> FpsSet \<Rightarrow> run \<Rightarrow> run" where
  "check_members w prim fps st =
     (let st1 = (if truthy (associated_sites fps)
                 then check_list_sites w prim (elems (associated_sites fps)) st else st);
          st2 = (if truthy (service_sites fps)
                 then check_list_sites w prim (elems (service_sites fps)) st1 else st1)
      in if truthy (ccTLDs fps) then well_known_ccTLDs w prim (elems (ccTLDs fps)) [] st2
         else st2)"

fun find_invalid_well_known :: "world \<Rightarrow> check_sets \<Rightarrow> run \<Rightarrow> run" where
  "find_invalid_well_known w [] st = st"
| "find_invalid_well_known w ((prim, fps) # rest) st =
     find_invalid_well_known w rest (check_members w prim fps (check_primary w prim fps st))"

section \<open>The checks of service sites\<close>

text \<open>\<^verbatim>\<open>sub in s\<close> on strings.\<close>

fun str_contains :: "string \<Rightarrow> string \<Rightarrow> bool" where
  "str_contains sub [] = (sub = [])"
| "str_contains sub (c # cs) = (startswith (c # cs) sub \<or> str_contains sub cs)"

definition newline :: string where
  "newline = [CHR 0x0A]"

definition exception_timeout :: string where
  "exception_timeout = ''Read timed out. (read timeout=10)''"

subsection \<open>find_robots_txt\<close>

definition robots_retries :: string where
  "robots_retries = ''Max retries exceeded with url: /robots.txt''"

text \<open>The try block of lines 485-498 for one service site.\<close>

definition robots_try :: "world \<Rightarrow> site \<Rightarrow> run \<Rightarrow> run \<times> py_exn option" where
  "robots_try w service_site st =
     (case requests_get w (clock st) (service_site @ ''/robots.txt'') of
        Inl inst \<Rightarrow> (tick st, Some inst)
      | Inr r \<Rightarrow>
          if status_code r = 200
          then (case requests_get w (clock (tick st)) service_site of
                  Inl inst \<Rightarrow> (tick (tick st), Some inst)
                | Inr r_service \<Rightarrow>
                    (case headers r_service ''X-Robots-Tag'' of
                       None \<Rightarrow>
                         (report (''The service site '' @ service_site @
                                  '' has a robots.txt file, '' @ ''but does not have '' @
                                  ''X-Robots-Tag in its header'') (tick (tick st)), None)
                     | Some tag \<Rightarrow>
                         if tag \<noteq> ''noindex''
                         then (report (''The service site '' @ service_site @
                                       '' has a robots.txt file, but does not have'' @
                                       '' a no-index tag in its header'') (tick (tick st)), None)
                         else (tick (tick st), None)))
          else (tick st, None))"

definition robots_site :: "world \<Rightarrow> site \<Rightarrow> run \<Rightarrow> run" where
  "robots_site w service_site st =
     (case robots_try w service_site st of
        (st', None) \<Rightarrow> st'
      | (st', Some inst) \<Rightarrow>
          if \<not> str_contains robots_retries (str_inst w inst)
          then (if \<not> str_contains exception_timeout (str_inst w inst)
                then report (''Unexpected error for service site: '' @ service_site @
                             ''; Received error:'' @ str_inst w inst) st'
                else st')
          else st')"



subsection \<open>find_ads_txt\<close>

definition ads_retries :: string where
  "ads_retries = ''Max retries exceeded with url: /ads.txt''"

text \<open>The try block of lines 529-533 for one service site.\<close>

definition ads_try :: "world \<Rightarrow> site \<Rightarrow> run \<Rightarrow> run \<times> py_exn option" where
  "ads_try w service_site st =
     (case requests_get w (clock st) (service_site @ ''/ads.txt'') of
        Inl inst \<Rightarrow> (tick st, Some inst)
      | Inr r \<Rightarrow>
          if status_code r = 200
          then (report (''The service site '' @ service_site @
                        '' has an ads.txt file, this violates '' @
                        ''the policies for service sites'') (tick st), None)
          else (tick st, None))"

definition ads_site :: "world \<Rightarrow> site \<Rightarrow> run \<Rightarrow> run" where
  "ads_site w service_site st =
     (case ads_try w service_site st of
        (st', None) \<Rightarrow> st'
      | (st', Some inst) \<Rightarrow>
          if \<not> str_contains ads_retries (str_inst w inst)
          then (if \<not> str_contains exception_timeout (str_inst w inst)
                then report (''Unexpected error for service site: '' @ service_site @
                             newline @ ''Received error:'' @ str_inst w inst) st'
                else st')
          else st')"

fun ads_sites :: "world \<Rightarrow> site list \<Rightarrow> run \<Rightarrow> run" where
  "ads_sites w [] st = st"
| "ads_sites w (service_site # rest) st = ads_sites w rest (ads_site w service_site st)"

fun find_ads_txt :: "world \<Rightarrow> check_sets \<Rightarrow> run \<Rightarrow> run" where
  "find_ads_txt w [] st = st"
| "find_ads_txt w ((prim, fps) # rest) st =
     find_ads_txt w rest
       (if \<not> truthy (service_sites fps) then st
        else ads_sites w (elems (service_sites fps)) st)"

subsection \<open>check_for_service_redirect\<close>

definition redirect_retries :: string where
  "redirect_retries = ''Max retries exceeded with url: /''"

text \<open>The try block of lines 563-573 for one service site.\<close>

definition redirect_try :: "world \<Rightarrow> site \<Rightarrow> run \<Rightarrow> run \<times> py_exn option" where
  "redirect_try w service_site st =
     (case requests_get w (clock st) service_site of
        Inl inst \<Rightarrow> (tick st, Some inst)
      | Inr r \<Rightarrow>
          if status_code r < 400 \<or> status_code r \<ge> 600
          then (if url r = service_site \<or> url r = service_site @ ''/''
                then (report (''The service site must not be an endpoint: '' @ service_site)
                        (tick st), None)
                else (tick st, None))
          else (tick st, None))"

definition redirect_site :: "world \<Rightarrow> site \<Rightarrow> run \<Rightarrow> run" where
  "redirect_site w service_site st =
     (case redirect_try w service_site st of
        (st', None) \<Rightarrow> st'
      | (st', Some inst) \<Rightarrow>
          if \<not> str_contains redirect_retries (str_inst w inst)
          then (if \<not> str_contains exception_timeout (str_inst w inst)
                then report (''Unexpected error for '' @ ''service site: '' @ service_site @
                             newline @ ''Received error: '' @ str_inst w inst) st'
                else st')
          else st')"



section \<open>Example submissions\<close>

definition rec_a :: fps_record where
  "rec_a = \<lparr>rec_primary = Some ''https://a.example'', rec_ccTLDs = None,
            rec_associatedSites = Some [''https://b.example''], rec_serviceSites = None,
            rec_rationaleBySite = None\<rparr>"

definition rec_a2 :: fps_record where
  "rec_a2 = \<lparr>rec_primary = Some ''https://a.example'', rec_ccTLDs = None,
             rec_associatedSites = None, rec_serviceSites = Some [''https://c.example''],
             rec_rationaleBySite = None\<rparr>"

text \<open>Two records without a primary.\<close>

definition rec_anon1 :: fps_record where
  "rec_anon1 = \<lparr>rec_primary = None, rec_ccTLDs = None,
                rec_associatedSites = Some [''https://a.example''], rec_serviceSites = None,
                rec_rationaleBySite = None\<rparr>"

definition rec_anon2 :: fps_record where
  "rec_anon2 = \<lparr>rec_primary = None, rec_ccTLDs = None,
                rec_associatedSites = Some [''https://b.example''], rec_serviceSites = None,
                rec_rationaleBySite = None\<rparr>"

section \<open>Reading the findings of has_all_rationales\<close>

text \<open>The union of the associated and the service sites of a set, each of which may be
  absent.\<close>

definition site_union :: "FpsSet \<Rightarrow> site list" where
  "site_union fps = elems (associated_sites fps) @ elems (service_sites fps)"

text \<open>What one iteration of \<^verbatim>\<open>has_all_rationales\<close> appends for a record.\<close>

definition record_findings :: "loaded_sets \<Rightarrow> fps_record \<Rightarrow> string list" where
  "record_findings check_sets fpset =
     (case rationale_body check_sets fpset [] of Inl raised \<Rightarrow> [] | Inr fs \<Rightarrow> fs)"

definition rec_svc :: fps_record where
  "rec_svc = \<lparr>rec_primary = Some ''https://p.example'', rec_ccTLDs = None,
              rec_associatedSites = None, rec_serviceSites = Some [''https://svc.example''],
              rec_rationaleBySite = None\<rparr>"

definition rec_partial :: fps_record where
  "rec_partial = \<lparr>rec_primary = Some ''https://q.example'', rec_ccTLDs = None,
                  rec_associatedSites = Some [''https://r.example'', ''https://s.example''],
                  rec_serviceSites = Some [''https://t.example''],
                  rec_rationaleBySite = Some [(''https://s.example'', ''same owner'')]\<rparr>"

section \<open>Reading the findings of find_non_https_urls\<close>

text \<open>The roles in which a set names a domain.\<close>

datatype role = Primary | Alias | AliasSite | Associated | Service

text \<open>Every occurrence of a domain in a set, with its role, in the order the checker
  visits them: the primary, each alias followed by its sites, the associated sites, the
  service sites.\<close>

definition occurrences :: "site \<times> FpsSet \<Rightarrow> (role \<times> site) list" where
  "occurrences entry =
     (case entry of (prim, fps) \<Rightarrow>
        (Primary, prim) #
        concat (map (\<lambda>kv. (Alias, fst kv) # map (Pair AliasSite) (snd kv)) (elems (ccTLDs fps))) @
        map (Pair Associated) (elems (associated_sites fps)) @
        map (Pair Service) (elems (service_sites fps)))"

text \<open>The finding for a domain without the prefix, by role.\<close>

fun non_https_finding :: "role \<times> site \<Rightarrow> string" where
  "non_https_finding (Primary, d) =
     ''The provided primary site does not begin with https:// '' @ d"
| "non_https_finding (Alias, d) = ''The provided alias does not begin with https:// '' @ d"
| "non_https_finding (AliasSite, d) =
     ''The provided alias site does not begin with https:// '' @ d"
| "non_https_finding (Associated, d) =
     ''The provided associated site does not begin with https:// '' @ d"
| "non_https_finding (Service, d) =
     ''The provided service site does not begin with https:// '' @ d"

definition set_http :: FpsSet where
  "set_http = \<lparr>ccTLDs = Some [(''http://example.com'', [''https://example.de'',
                                                          ''http://example.com''])],
               primary = Some ''http://example.com'',
               associated_sites = Some [''http://example.com''],
               service_sites = Some [''https://svc.example'', ''http://example.com'']\<rparr>"

section \<open>Example sets for check_exclusivity\<close>

definition set_A :: FpsSet where
  "set_A = \<lparr>ccTLDs = None, primary = Some ''https://a.example'', associated_sites = None,
            service_sites = None\<rparr>"

definition set_B :: FpsSet where
  "set_B = \<lparr>ccTLDs = None, primary = Some ''https://b.example'',
            associated_sites = Some [''https://a.example''], service_sites = None\<rparr>"

section \<open>Reading the findings of find_invalid_alias_eSLDs\<close>

definition has_dot :: "string \<Rightarrow> bool" where
  "has_dot s = (CHR ''.'' \<in> set s)"

text \<open>All the alias keys of a model, in the order the checker meets them.\<close>

definition alias_keys :: "check_sets \<Rightarrow> site list" where
  "alias_keys check_sets = concat (map (\<lambda>e. map fst (elems (ccTLDs (snd e)))) check_sets)"

text \<open>The labels of a domain are its pieces between the dots; the top-level label is the
  last one.\<close>

definition first_label :: "string \<Rightarrow> string" where
  "first_label s = hd (split_dot s)"

definition top_label :: "string \<Rightarrow> string" where
  "top_label s = last (split_dot s)"

text \<open>The two parts of a string around its first dot.\<close>

definition before_first_dot :: "string \<Rightarrow> string" where
  "before_first_dot s = takeWhile (\<lambda>c. c \<noteq> CHR ''.'') s"

definition after_first_dot :: "string \<Rightarrow> string" where
  "after_first_dot s = tl (dropWhile (\<lambda>c. c \<noteq> CHR ''.'') s)"

text \<open>The country codes a sibling of an alias key may carry: the recognized set, with
  "com" added when what follows the first dot of the key is in the set.\<close>

definition accepted_codes :: "string set \<Rightarrow> site \<Rightarrow> string set" where
  "accepted_codes icanns aliased_site =
     (if after_first_dot aliased_site \<in> icanns then insert ''com'' icanns else icanns)"

text \<open>The findings for one sibling listed under an alias key.\<close>

definition sibling_findings :: "string set \<Rightarrow> site \<Rightarrow> site \<Rightarrow> string list" where
  "sibling_findings icanns aliased_site site =
     (if first_label site \<noteq> before_first_dot aliased_site
      then [''The following top level domain must match: '' @ aliased_site @
            '', but is instead: '' @ site]
      else []) @
     (if top_label site \<notin> accepted_codes icanns aliased_site
      then [''The provided country code: '' @ top_label site @ '', in: '' @ site @
            '' is not a ICANN registered country code'']
      else [])"

text \<open>The findings for one alias key of a set and the siblings listed under it.\<close>

definition key_findings :: "string set \<Rightarrow> site \<Rightarrow> FpsSet \<Rightarrow> site \<times> site list \<Rightarrow> string list" where
  "key_findings icanns prim fps alias =
     (if fst alias \<noteq> prim \<and> fst alias \<notin> set (site_union fps)
      then [''The aliased site '' @ fst alias @ '' contained within the ccTLDs must be a '' @
            ''primary, associated site, or service site '' @
            ''within the firsty pary set for '' @ prim]
      else []) @
     concat (map (sibling_findings icanns (fst alias)) (snd alias))"

definition entry_findings :: "string set \<Rightarrow> site \<times> FpsSet \<Rightarrow> string list" where
  "entry_findings icanns entry =
     concat (map (key_findings icanns (fst entry) (snd entry)) (elems (ccTLDs (snd entry))))"

text \<open>What the in-place extension of the associated sites keeps of a set.\<close>

definition same_members :: "FpsSet \<Rightarrow> FpsSet \<Rightarrow> bool" where
  "same_members a b =
     (ccTLDs b = ccTLDs a \<and> primary b = primary a \<and> service_sites b = service_sites a \<and>
      set (site_union b) = set (site_union a))"

section \<open>Example sets for find_invalid_alias_eSLDs\<close>

definition set_co :: FpsSet where
  "set_co = \<lparr>ccTLDs = Some [(''https://example.co'', [''https://example.fr''])],
             primary = Some ''https://example.co'', associated_sites = None,
             service_sites = None\<rparr>"

definition set_couk :: FpsSet where
  "set_couk = \<lparr>ccTLDs = Some [(''https://example.co.uk'', [''https://example.com''])],
               primary = Some ''https://example.co.uk'', associated_sites = None,
               service_sites = None\<rparr>"

definition set_nodot :: FpsSet where
  "set_nodot = \<lparr>ccTLDs = Some [(''localhost'', [''https://example.de''])],
                primary = Some ''https://example.com'', associated_sites = Some [''localhost''],
                service_sites = None\<rparr>"

section \<open>Example worlds for the checks of service sites\<close>

definition set_svc :: FpsSet where
  "set_svc = \<lparr>ccTLDs = None, primary = Some ''https://p.example'', associated_sites = None,
              service_sites = Some [''https://svc.example'']\<rparr>"

text \<open>A world in which every request is answered with the given status and no redirect.\<close>

definition world_status :: "int \<Rightarrow> world" where
  "world_status code =
     \<lparr>open_and_load_json = (\<lambda>n a. Inl (Raised ''no document'')),
      requests_get = (\<lambda>n a. Inr \<lparr>status_code = code, headers = (\<lambda>h. None), url = a\<rparr>),
      builtin_str = (\<lambda>e. ''''), str_sorted = (\<lambda>s. Inr ''''),
      field_order = acceptable_fields\<rparr>"

text \<open>A world in which every request fails with the given message.\<close>

definition world_failing :: "string \<Rightarrow> world" where
  "world_failing m =
     \<lparr>open_and_load_json = (\<lambda>n a. Inl (Raised m)),
      requests_get = (\<lambda>n a. Inl (Raised m)),
      builtin_str = (\<lambda>e. ''''), str_sorted = (\<lambda>s. Inr ''''),
      field_order = acceptable_fields\<rparr>"


definition run0 :: run where
  "run0 = \<lparr>error_list = [], clock = 0\<rparr>"

section \<open>Reading the findings of find_invalid_well_known\<close>

text \<open>
  The documents \<^verbatim>\<open>find_invalid_well_known\<close> requests, in order. For a set: the document
  of the primary, then those of the associated sites, of the service sites, and, for
  each alias key in turn, those of all the alias sites listed up to and including that
  key (the call of \<^verbatim>\<open>check_list_sites\<close> stands inside the loop of lines 407-409).
\<close>

datatype visit = PrimaryDoc site FpsSet | MemberDoc site site

fun alias_visits :: "(site \<times> site list) list \<Rightarrow> site list \<Rightarrow> site list" where
  "alias_visits [] collected = []"
| "alias_visits (kv # rest) collected =
     (collected @ snd kv) @ alias_visits rest (collected @ snd kv)"

definition member_visits :: "FpsSet \<Rightarrow> site list" where
  "member_visits fps =
     elems (associated_sites fps) @ elems (service_sites fps) @
     alias_visits (elems (ccTLDs fps)) []"

definition set_visits :: "site \<times> FpsSet \<Rightarrow> visit list" where
  "set_visits entry =
     PrimaryDoc (fst entry) (snd entry) #
     map (MemberDoc (fst entry)) (member_visits (snd entry))"

text \<open>The address of the document a visit requests.\<close>

fun visit_url :: "visit \<Rightarrow> string" where
  "visit_url (PrimaryDoc prim fps) = prim @ ''/.well-known/first-party-set.json''"
| "visit_url (MemberDoc prim site) = site @ ''/.well-known/first-party-set.json''"

text \<open>The findings of one visit made as request number \<open>n\<close>, and the findings of a
  sequence of visits made as the requests \<open>n\<close>, \<open>n + 1\<close>, ...\<close>

fun visit_findings :: "world \<Rightarrow> nat \<Rightarrow> visit \<Rightarrow> string list" where
  "visit_findings w n (PrimaryDoc prim fps) =
     error_list (check_primary w prim fps \<lparr>error_list = [], clock = n\<rparr>)"
| "visit_findings w n (MemberDoc prim site) =
     error_list (check_site w prim site \<lparr>error_list = [], clock = n\<rparr>)"

fun findings_from :: "world \<Rightarrow> nat \<Rightarrow> visit list \<Rightarrow> string list" where
  "findings_from w n [] = []"
| "findings_from w n (v # vs) = visit_findings w n v @ findings_from w (Suc n) vs"

text \<open>The start of a finding about a field of the fetched document.\<close>

definition field_finding_prefix :: "string \<Rightarrow> string" where
  "field_finding_prefix field =
     ''The following member(s) of '' @ field @
     '' were not present in both the changelist and .well-known/first-party-set.json file: ''"

text \<open>The findings a step has added to the error list.\<close>

definition new_findings :: "run \<Rightarrow> run \<Rightarrow> string list" where
  "new_findings st st' = drop (length (error_list st)) (error_list st')"

definition set_a_assoc :: FpsSet where
  "set_a_assoc = \<lparr>ccTLDs = None, primary = Some ''https://a.example'',
                  associated_sites = Some [''https://b.example''], service_sites = None\<rparr>"

text \<open>A world in which every well-known document names the primary "https://a.example"
  and nothing else.\<close>

text \<open>A set with two alias keys, each with one alias site.\<close>

definition set_two_aliases :: FpsSet where
  "set_two_aliases =
     \<lparr>ccTLDs = Some [(''https://a.example'', [''https://a.de'']),
                     (''https://b.example'', [''https://b.de''])],
      primary = Some ''https://a.example'', associated_sites = Some [''https://b.example''],
      service_sites = None\<rparr>"

definition world_primary_only :: world where
  "world_primary_only =
     \<lparr>open_and_load_json = (\<lambda>n a. Inr (PDict [(''primary'', PStr ''https://a.example'')])),
      requests_get = (\<lambda>n a. Inl (Raised ''no response'')),
      builtin_str = (\<lambda>e. ''''), str_sorted = (\<lambda>s. Inr ''''),
      field_order = acceptable_fields\<rparr>"

section \<open>Properties of load_sets\<close>

lemma load_sets_loop_snoc:
  "load_sets_loop (sets @ [fpset]) cs es =
     (case load_sets_loop sets cs es of
        Inl e \<Rightarrow> Inl e
      | Inr (cs', es') \<Rightarrow>
          if rec_primary fpset \<in> set (map fst cs')
          then (case rec_primary fpset of
                  None \<Rightarrow> Inl TypeError
                | Some p \<Rightarrow> Inr (cs', es' @ [p @ '' is already a primary of another site'']))
          else Inr (cs' @ [(rec_primary fpset, mk_FpsSet fpset)], es'))"
  by (induction sets arbitrary: cs es) (auto split: option.splits)

lemma load_sets_loop_keys:
  "load_sets_loop sets cs es = Inr (cs', es') \<Longrightarrow>
   set (map fst cs') = set (map fst cs) \<union> rec_primary ` set sets"
  by (induction sets arbitrary: cs es) (auto split: if_splits option.splits)

lemma load_sets_loop_distinct:
  "load_sets_loop sets cs es = Inr (cs', es') \<Longrightarrow> distinct (map fst cs) \<Longrightarrow>
   distinct (map fst cs')"
  by (induction sets arbitrary: cs es) (auto split: if_splits option.splits)

text \<open>
  C4. The claim has \<^verbatim>\<open>load_sets\<close> return the mapping for every submission, with one
  finding for each record whose primary is already a key. A record without a primary is
  read as the primary \<^verbatim>\<open>None\<close>: the first such record is stored under the key
  \<^verbatim>\<open>None\<close>, and at the second one the message \<^verbatim>\<open>primary + " is already ..."\<close> raises
  TypeError. Nothing is returned, and the error list of the run is left as it was.
\<close>

theorem load_sets_raises_on_second_missing_primary:
  "load_sets [rec_anon1, rec_anon2] errs = Inl (TypeError, errs)"
  by (simp add: load_sets_def rec_anon1_def rec_anon2_def)

text \<open>
  What the claim says holds as long as \<^verbatim>\<open>load_sets\<close> returns. Reading one more record at
  the end of a submission that loads: when its primary is a string that is already a
  key, exactly one finding is appended and the dictionary is left as it was; when its
  primary is not yet a key, the record is inserted and nothing is reported. The keys are
  the primaries of the submission, each once.
\<close>

lemma load_sets_keeps_first:
  assumes "load_sets sets errs = Inr (check_sets, errs')"
  shows "load_sets (sets @ [fpset]) errs =
           (if rec_primary fpset \<in> set (map fst check_sets)
            then (case rec_primary fpset of
                    None \<Rightarrow> Inl (TypeError, errs)
                  | Some p \<Rightarrow>
                      Inr (check_sets, errs' @ [p @ '' is already a primary of another site'']))
            else Inr (check_sets @ [(rec_primary fpset, mk_FpsSet fpset)], errs'))"
    and "set (map fst check_sets) = rec_primary ` set sets"
    and "distinct (map fst check_sets)"
proof -
  from assms obtain es where l: "load_sets_loop sets [] [] = Inr (check_sets, es)"
    and e: "errs' = errs @ es"
    by (auto simp: load_sets_def split: sum.splits)
  show "load_sets (sets @ [fpset]) errs =
           (if rec_primary fpset \<in> set (map fst check_sets)
            then (case rec_primary fpset of
                    None \<Rightarrow> Inl (TypeError, errs)
                  | Some p \<Rightarrow>
                      Inr (check_sets, errs' @ [p @ '' is already a primary of another site'']))
            else Inr (check_sets @ [(rec_primary fpset, mk_FpsSet fpset)], errs'))"
    by (simp add: load_sets_def load_sets_loop_snoc l e split: option.splits)
  show "set (map fst check_sets) = rec_primary ` set sets"
    using load_sets_loop_keys [OF l] by simp
  show "distinct (map fst check_sets)"
    using load_sets_loop_distinct [OF l] by simp
qed

text \<open>With primaries on both records the duplicate is reported and the first record kept.\<close>

lemma load_sets_duplicate_example:
  "load_sets [rec_a, rec_a2] [] =
     Inr ([(Some ''https://a.example'', mk_FpsSet rec_a)],
          [''https://a.example is already a primary of another site''])"
  by (simp add: load_sets_def rec_a_def rec_a2_def)

section \<open>Properties of has_all_rationales\<close>

lemma missing_rationales_eq:
  "missing_rationales sites r errs =
     errs @ map (\<lambda>s. ''There is no provided rationale for '' @ s)
              (filter (\<lambda>s. s \<notin> set (map fst r)) sites)"
  by (induction sites arbitrary: errs) auto

lemma rationale_sites_union:
  "elems (rationale_sites fps) = site_union fps"
  "truthy (rationale_sites fps) = (site_union fps \<noteq> [])"
  by (cases "associated_sites fps"; cases "service_sites fps";
      simp add: rationale_sites_def site_union_def Let_def)+

lemma rationale_body_append:
  "rationale_body cs fpset errs =
     (case rationale_body cs fpset [] of
        Inl raised \<Rightarrow> Inl (fst raised, errs)
      | Inr fs \<Rightarrow> Inr (errs @ fs))"
  by (simp add: rationale_body_def Let_def missing_rationales_eq
      split: sum.splits option.splits)

lemma rationale_body_total:
  "rec_primary fpset \<in> fst ` set cs \<Longrightarrow> \<exists>fs. rationale_body cs fpset [] = Inr fs"
proof -
  assume "rec_primary fpset \<in> fst ` set cs"
  then have "map_of cs (rec_primary fpset) \<noteq> None"
    by (simp add: map_of_eq_None_iff)
  then show ?thesis
    by (auto simp: rationale_body_def dict_get_def Let_def split: option.splits)
qed

lemma has_all_rationales_concat:
  "\<forall>fpset\<in>set sets. rec_primary fpset \<in> fst ` set cs \<Longrightarrow>
   has_all_rationales sets cs errs = Inr (errs @ concat (map (record_findings cs) sets))"
proof (induction sets arbitrary: errs)
  case Nil
  then show ?case by simp
next
  case (Cons r rs)
  then obtain fs where fs: "rationale_body cs r [] = Inr fs"
    using rationale_body_total [of r cs] by auto
  have "rationale_body cs r errs = Inr (errs @ fs)"
    using rationale_body_append [of cs r errs] by (simp add: fs)
  with Cons fs show ?case
    by (simp add: record_findings_def)
qed

text \<open>
  C7. When every record of the submission has its entry in \<^verbatim>\<open>check_sets\<close>, the checker
  returns the error list extended by the findings of each record in turn. For a record
  whose set has a non-empty union of associated and service sites and that has no
  \<^verbatim>\<open>rationaleBySite\<close>, these are exactly one finding for the whole set. For a record with
  a \<^verbatim>\<open>rationaleBySite\<close>, they are one finding for each listed site of the union that is
  not a key of it.
\<close>

theorem has_all_rationales_findings:
  "((\<forall>fpset\<in>set sets. rec_primary fpset \<in> fst ` set check_sets) \<longrightarrow>
      has_all_rationales sets check_sets errs =
        Inr (errs @ concat (map (record_findings check_sets) sets)))
   \<and> (map_of check_sets (rec_primary fpset) = Some fps \<and> site_union fps \<noteq> [] \<and>
        rec_rationaleBySite fpset = None \<longrightarrow>
      record_findings check_sets fpset =
        [''A rationaleBySite field is required for this set, but none is provided. ''])
   \<and> (map_of check_sets (rec_primary fpset) = Some fps \<and>
        rec_rationaleBySite fpset = Some r \<longrightarrow>
      record_findings check_sets fpset =
        map (\<lambda>s. ''There is no provided rationale for '' @ s)
          (filter (\<lambda>s. s \<notin> set (map fst r)) (site_union fps)))"
proof (intro conjI impI)
  assume "\<forall>fpset\<in>set sets. rec_primary fpset \<in> fst ` set check_sets"
  then show "has_all_rationales sets check_sets errs =
        Inr (errs @ concat (map (record_findings check_sets) sets))"
    by (rule has_all_rationales_concat)
next
  assume a: "map_of check_sets (rec_primary fpset) = Some fps \<and> site_union fps \<noteq> [] \<and>
        rec_rationaleBySite fpset = None"
  then have "rationale_sites fps \<noteq> None"
    using rationale_sites_union(2) [of fps] by (cases "rationale_sites fps") auto
  with a show "record_findings check_sets fpset =
        [''A rationaleBySite field is required for this set, but none is provided. '']"
    by (simp add: record_findings_def rationale_body_def dict_get_def Let_def)
next
  assume a: "map_of check_sets (rec_primary fpset) = Some fps \<and>
        rec_rationaleBySite fpset = Some r"
  show "record_findings check_sets fpset =
        map (\<lambda>s. ''There is no provided rationale for '' @ s)
          (filter (\<lambda>s. s \<notin> set (map fst r)) (site_union fps))"
  proof (cases "truthy (rationale_sites fps)")
    case True
    with a show ?thesis
      by (simp add: record_findings_def rationale_body_def dict_get_def Let_def
          missing_rationales_eq rationale_sites_union(1))
  next
    case False
    then have "site_union fps = []"
      by (simp add: rationale_sites_union(2))
    with a False show ?thesis
      by (simp add: record_findings_def rationale_body_def dict_get_def Let_def)
  qed
qed

theorem has_all_rationales_findings_witness:
  "has_all_rationales [rec_svc, rec_partial]
     [(Some ''https://p.example'', mk_FpsSet rec_svc),
      (Some ''https://q.example'', mk_FpsSet rec_partial)] [] =
     Inr [''A rationaleBySite field is required for this set, but none is provided. '',
          ''There is no provided rationale for https://r.example'',
          ''There is no provided rationale for https://t.example'']"
proof -
  let ?cs = "[(Some ''https://p.example'', mk_FpsSet rec_svc),
              (Some ''https://q.example'', mk_FpsSet rec_partial)]"
  have k: "\<forall>fpset\<in>set [rec_svc, rec_partial]. rec_primary fpset \<in> fst ` set ?cs"
    by (simp add: rec_svc_def rec_partial_def)
  have s: "record_findings ?cs rec_svc =
      [''A rationaleBySite field is required for this set, but none is provided. '']"
    using has_all_rationales_findings [of "[]" ?cs "[]" rec_svc "mk_FpsSet rec_svc" "[]"]
    by (simp add: rec_svc_def mk_FpsSet_def site_union_def)
  have p: "record_findings ?cs rec_partial =
      [''There is no provided rationale for https://r.example'',
       ''There is no provided rationale for https://t.example'']"
    using has_all_rationales_findings [of "[]" ?cs "[]" rec_partial "mk_FpsSet rec_partial"
        "[(''https://s.example'', ''same owner'')]"]
    by (simp add: rec_svc_def rec_partial_def mk_FpsSet_def site_union_def)
  show ?thesis
    using has_all_rationales_findings [of "[rec_svc, rec_partial]" ?cs "[]" rec_svc
        "mk_FpsSet rec_svc" "[]"] k s p
    by simp
qed

text \<open>The dictionary of the example is the one \<^verbatim>\<open>load_sets\<close> builds from its records.\<close>

lemma rationale_example_loaded:
  "load_sets [rec_svc, rec_partial] [] =
     Inr ([(Some ''https://p.example'', mk_FpsSet rec_svc),
           (Some ''https://q.example'', mk_FpsSet rec_partial)], [])"
  by (simp add: load_sets_def rec_svc_def rec_partial_def)

section \<open>Properties of find_non_https_urls\<close>

lemma https_aliased_sites_eq:
  "https_aliased_sites xs errs =
     errs @ map non_https_finding (filter (\<lambda>x. \<not> url_is_https (snd x)) (map (Pair AliasSite) xs))"
  by (induction xs arbitrary: errs) auto

lemma https_associated_eq:
  "https_associated xs errs =
     errs @ map non_https_finding (filter (\<lambda>x. \<not> url_is_https (snd x)) (map (Pair Associated) xs))"
  by (induction xs arbitrary: errs) auto

lemma https_service_eq:
  "https_service xs errs =
     errs @ map non_https_finding (filter (\<lambda>x. \<not> url_is_https (snd x)) (map (Pair Service) xs))"
  by (induction xs arbitrary: errs) auto

lemma https_ccTLDs_eq:
  "https_ccTLDs d errs =
     errs @ map non_https_finding
       (filter (\<lambda>x. \<not> url_is_https (snd x))
          (concat (map (\<lambda>kv. (Alias, fst kv) # map (Pair AliasSite) (snd kv)) d)))"
  by (induction d arbitrary: errs) (auto simp: https_aliased_sites_eq)

lemma truthy_elems: "\<not> truthy x \<Longrightarrow> elems x = []"
  by (cases x) auto

lemma https_body_eq:
  "https_body entry errs =
     errs @ map non_https_finding (filter (\<lambda>x. \<not> url_is_https (snd x)) (occurrences entry))"
proof -
  obtain prim fps where e: "entry = (prim, fps)"
    by (cases entry)
  show ?thesis
    unfolding e
    by (simp add: https_body_def occurrences_def Let_def https_ccTLDs_eq https_associated_eq
        https_service_eq truthy_elems)
qed

text \<open>
  C10. The findings of \<^verbatim>\<open>find_non_https_urls\<close> are, in order, exactly one finding for
  each occurrence of a domain that does not begin with "https://", in whichever role the
  occurrence stands: primary, alias, site of an alias, associated site or service site.
  Occurrences that begin with "https://" yield nothing.
\<close>

theorem find_non_https_urls_findings:
  "find_non_https_urls check_sets errs =
     errs @ map non_https_finding
              (filter (\<lambda>x. \<not> url_is_https (snd x)) (concat (map occurrences check_sets)))"
  by (induction check_sets arbitrary: errs) (simp_all add: https_body_eq)

theorem find_non_https_urls_findings_witness:
  "find_non_https_urls [(''http://example.com'', set_http)] [] =
     [''The provided primary site does not begin with https:// http://example.com'',
      ''The provided alias does not begin with https:// http://example.com'',
      ''The provided alias site does not begin with https:// http://example.com'',
      ''The provided associated site does not begin with https:// http://example.com'',
      ''The provided service site does not begin with https:// http://example.com'']"
  using find_non_https_urls_findings [of "[(''http://example.com'', set_http)]" "[]"]
  by (simp add: occurrences_def set_http_def url_is_https_def startswith_def)

section \<open>check_exclusivity on a primary claimed again as an associated site\<close>

lemma update_str_members:
  "x \<in> update_str site_list s \<longleftrightarrow> x \<in> site_list \<or> (\<exists>c\<in>set s. x = [c])"
  by (auto simp: update_str_def)

text \<open>
  C1. Set A has the primary "https://a.example"; set B, processed after it, lists that
  domain among its associated sites. The claim asks for exactly one finding naming the
  domain, attributed to B. The checker registers the primary of A with
  \<^verbatim>\<open>site_list.update(primary)\<close>, which adds the characters of the string and not the
  string: the domain is not in \<^verbatim>\<open>site_list\<close> when B is checked, and the run ends
  with no finding at all.
\<close>

theorem check_exclusivity_misses_primary:
  "check_exclusivity str_set
     [(''https://a.example'', set_A), (''https://b.example'', set_B)] [] = []"
  by (simp add: check_exclusivity_def exclusivity_body_def overlap_check_def update_list_def
      update_str_members set_A_def set_B_def Let_def)

text \<open>In the other order the associated site of B is registered as a whole, and the
  primary of A is then reported.\<close>

lemma check_exclusivity_other_order:
  "check_exclusivity str_set
     [(''https://b.example'', set_B), (''https://a.example'', set_A)] [] =
   [''This primary is already registered in another first party set: https://a.example'']"
  by (simp add: check_exclusivity_def exclusivity_body_def overlap_check_def update_list_def
      update_str_members set_A_def set_B_def Let_def)

section \<open>Properties of find_invalid_alias_eSLDs\<close>

lemma split_dot_nonempty: "split_dot s \<noteq> []"
  by (induction s) (auto split: list.splits)

lemma split_dot1_eq:
  "split_dot1 s =
     (if has_dot s then [before_first_dot s, after_first_dot s] else [s])"
  by (induction s) (auto simp: has_dot_def before_first_dot_def after_first_dot_def)

lemma unpack2_split_dot1:
  "unpack2 (split_dot1 s) =
     (if has_dot s then Inr (before_first_dot s, after_first_dot s) else Inl ValueError)"
  by (simp add: split_dot1_eq)

lemma index_split_dot:
  "index_first (split_dot s) = Inr (first_label s)"
  "index_last (split_dot s) = Inr (top_label s)"
  using split_dot_nonempty [of s]
  by (cases "split_dot s"; simp add: first_label_def top_label_def)+

lemma plus1s_eq:
  "plus1s sites = Inr (map (\<lambda>s. (s, first_label s, top_label s)) sites)"
  by (induction sites) (simp_all add: index_split_dot)

lemma eSLD_loop_eq:
  "eSLD_loop aliased_site (before_first_dot aliased_site) (accepted_codes icanns aliased_site)
       (map (\<lambda>s. (s, first_label s, top_label s)) sites) errs =
     errs @ concat (map (sibling_findings icanns aliased_site) sites)"
  by (induction sites arbitrary: errs) (simp_all add: sibling_findings_def Let_def)

lemma same_members_refl: "same_members a a"
  by (simp add: same_members_def)

lemma same_members_trans: "same_members a b \<Longrightarrow> same_members b c \<Longrightarrow> same_members a c"
  by (simp add: same_members_def)

lemma alias_membership_eq:
  "\<exists>curr_set'. alias_membership prim aliased_site curr_set errs =
       (curr_set',
        errs @ (if aliased_site \<notin> set (site_union curr_set)
                then [''The aliased site '' @ aliased_site @
                      '' contained within the ccTLDs must be a '' @
                      ''primary, associated site, or service site '' @
                      ''within the firsty pary set for '' @ prim]
                else []))
     \<and> same_members curr_set curr_set'"
  by (cases "associated_sites curr_set"; cases "service_sites curr_set")
     (auto simp: alias_membership_def Let_def site_union_def same_members_def)

lemma alias_body_run:
  assumes "has_dot aliased_site"
  shows "alias_body icanns prim (aliased_site, alias_sites) (curr_set, errs) =
     Inr (fst (if aliased_site \<noteq> prim
               then alias_membership prim aliased_site curr_set errs else (curr_set, errs)),
          snd (if aliased_site \<noteq> prim
               then alias_membership prim aliased_site curr_set errs else (curr_set, errs)) @
          concat (map (sibling_findings icanns aliased_site) alias_sites))"
proof -
  have "alias_body icanns prim (aliased_site, alias_sites) (curr_set, errs) =
     Inr (fst (if aliased_site \<noteq> prim
               then alias_membership prim aliased_site curr_set errs else (curr_set, errs)),
          eSLD_loop aliased_site (before_first_dot aliased_site)
            (accepted_codes icanns aliased_site)
            (map (\<lambda>s. (s, first_label s, top_label s)) alias_sites)
            (snd (if aliased_site \<noteq> prim
                  then alias_membership prim aliased_site curr_set errs else (curr_set, errs))))"
    using assms
    by (simp add: alias_body_def unpack2_split_dot1 plus1s_eq accepted_codes_def Let_def)
  then show ?thesis
    by (simp only: eSLD_loop_eq)
qed

lemma alias_body_dot:
  assumes "has_dot (fst al)"
  shows "\<exists>curr_set'. alias_body icanns prim al (curr_set, errs) =
           Inr (curr_set', errs @ key_findings icanns prim curr_set al)
         \<and> same_members curr_set curr_set'"
proof -
  obtain aliased_site alias_sites where a: "al = (aliased_site, alias_sites)"
    by (cases al)
  from assms have d: "has_dot aliased_site"
    by (simp add: a)
  show ?thesis
  proof (cases "aliased_site \<noteq> prim")
    case True
    obtain c' where c': "alias_membership prim aliased_site curr_set errs =
       (c', errs @ (if aliased_site \<notin> set (site_union curr_set)
                then [''The aliased site '' @ aliased_site @
                      '' contained within the ccTLDs must be a '' @
                      ''primary, associated site, or service site '' @
                      ''within the firsty pary set for '' @ prim]
                else []))" and s: "same_members curr_set c'"
      using alias_membership_eq [of prim aliased_site curr_set errs] by blast
    from True c' s alias_body_run [OF d, of icanns prim alias_sites curr_set errs]
    show ?thesis
      unfolding a by (simp add: key_findings_def)
  next
    case False
    with alias_body_run [OF d, of icanns prim alias_sites curr_set errs] show ?thesis
      unfolding a by (simp add: key_findings_def same_members_refl)
  qed
qed

lemma alias_body_no_dot:
  assumes "\<not> has_dot (fst al)"
  shows "\<exists>curr_set' new. alias_body icanns prim al (curr_set, errs) =
           Inl (ValueError, curr_set', errs @ new)"
proof -
  obtain aliased_site alias_sites where a: "al = (aliased_site, alias_sites)"
    by (cases al)
  obtain c' new where "alias_membership prim aliased_site curr_set errs = (c', errs @ new)"
    using alias_membership_eq [of prim aliased_site curr_set errs] by blast
  with assms show ?thesis
    unfolding a
    by (cases "aliased_site \<noteq> prim")
       (auto simp: alias_body_def unpack2_split_dot1 Let_def)
qed

lemma key_findings_same:
  "same_members a b \<Longrightarrow> key_findings icanns prim b alias = key_findings icanns prim a alias"
  by (simp add: key_findings_def same_members_def)

lemma alias_loop_dots:
  "list_all has_dot (map fst d) \<Longrightarrow>
   \<exists>curr_set'. alias_loop icanns prim d (curr_set, errs) =
       Inr (curr_set', errs @ concat (map (key_findings icanns prim curr_set) d))
     \<and> same_members curr_set curr_set'"
proof (induction d arbitrary: curr_set errs)
  case Nil
  then show ?case by (simp add: same_members_refl)
next
  case (Cons al rest)
  then have h: "has_dot (fst al)" and r: "list_all has_dot (map fst rest)"
    by simp_all
  obtain c1 where b: "alias_body icanns prim al (curr_set, errs) =
      Inr (c1, errs @ key_findings icanns prim curr_set al)" and s1: "same_members curr_set c1"
    using alias_body_dot [OF h] by blast
  obtain c2 where l: "alias_loop icanns prim rest (c1, errs @ key_findings icanns prim curr_set al) =
      Inr (c2, (errs @ key_findings icanns prim curr_set al) @
               concat (map (key_findings icanns prim c1) rest))" and s2: "same_members c1 c2"
    using Cons.IH [OF r] by blast
  have "map (key_findings icanns prim c1) rest = map (key_findings icanns prim curr_set) rest"
    using s1 by (simp add: key_findings_same)
  with b l s1 s2 show ?case
    by (auto intro: same_members_trans)
qed

lemma alias_loop_no_dot:
  "\<not> list_all has_dot (map fst d) \<Longrightarrow>
   \<exists>curr_set' new. alias_loop icanns prim d (curr_set, errs) =
     Inl (ValueError, curr_set', errs @ new)"
proof (induction d arbitrary: curr_set errs)
  case Nil
  then show ?case by simp
next
  case (Cons al rest)
  show ?case
  proof (cases "has_dot (fst al)")
    case True
    obtain c1 where b: "alias_body icanns prim al (curr_set, errs) =
        Inr (c1, errs @ key_findings icanns prim curr_set al)"
      using alias_body_dot [OF True, of icanns prim curr_set errs] by blast
    from True Cons.prems have "\<not> list_all has_dot (map fst rest)"
      by simp
    from Cons.IH [OF this, of c1 "errs @ key_findings icanns prim curr_set al"]
    obtain c2 new where "alias_loop icanns prim rest
        (c1, errs @ key_findings icanns prim curr_set al) =
        Inl (ValueError, c2, (errs @ key_findings icanns prim curr_set al) @ new)"
      by blast
    with b show ?thesis by simp
  next
    case False
    from alias_body_no_dot [OF False, of icanns prim curr_set errs] show ?thesis
      by auto
  qed
qed

lemma alias_sets_dots:
  "list_all has_dot (alias_keys cs) \<Longrightarrow>
   \<exists>cs'. alias_sets icanns processed cs errs =
       Inr (processed @ cs', errs @ concat (map (entry_findings icanns) cs))
     \<and> map fst cs' = map fst cs"
proof (induction cs arbitrary: processed errs)
  case Nil
  then show ?case by simp
next
  case (Cons entry rest)
  obtain prim curr_set where e: "entry = (prim, curr_set)"
    by (cases entry)
  from Cons.prems have k: "list_all has_dot (map fst (elems (ccTLDs curr_set)))"
    and r: "list_all has_dot (alias_keys rest)"
    by (simp_all add: alias_keys_def e)
  obtain c' where l: "alias_loop icanns prim (elems (ccTLDs curr_set)) (curr_set, errs) =
       Inr (c', errs @ concat (map (key_findings icanns prim curr_set) (elems (ccTLDs curr_set))))"
    using alias_loop_dots [OF k] by blast
  have f: "entry_findings icanns entry =
      concat (map (key_findings icanns prim curr_set) (elems (ccTLDs curr_set)))"
    by (simp add: entry_findings_def e)
  show ?case
  proof (cases "truthy (ccTLDs curr_set)")
    case True
    obtain cs' where "alias_sets icanns (processed @ [(prim, c')]) rest
          (errs @ entry_findings icanns entry) =
        Inr ((processed @ [(prim, c')]) @ cs',
             (errs @ entry_findings icanns entry) @ concat (map (entry_findings icanns) rest))"
      and "map fst cs' = map fst rest"
      using Cons.IH [OF r] by blast
    with True l f show ?thesis
      unfolding e by (intro exI [of _ "(prim, c') # cs'"]) simp
  next
    case False
    then have n: "entry_findings icanns entry = []"
      by (simp add: f truthy_elems)
    obtain cs' where "alias_sets icanns (processed @ [(prim, curr_set)]) rest errs =
        Inr ((processed @ [(prim, curr_set)]) @ cs',
             errs @ concat (map (entry_findings icanns) rest))"
      and "map fst cs' = map fst rest"
      using Cons.IH [OF r] by blast
    with False n show ?thesis
      unfolding e by (intro exI [of _ "(prim, curr_set) # cs'"]) simp
  qed
qed

lemma alias_sets_no_dot:
  "\<not> list_all has_dot (alias_keys cs) \<Longrightarrow>
   \<exists>cs' new. alias_sets icanns processed cs errs = Inl (ValueError, cs', errs @ new)"
proof (induction cs arbitrary: processed errs)
  case Nil
  then show ?case by (simp add: alias_keys_def)
next
  case (Cons entry rest)
  obtain prim curr_set where e: "entry = (prim, curr_set)"
    by (cases entry)
  show ?case
  proof (cases "list_all has_dot (map fst (elems (ccTLDs curr_set)))")
    case True
    with Cons.prems have r: "\<not> list_all has_dot (alias_keys rest)"
      by (simp add: alias_keys_def e)
    obtain c' where l: "alias_loop icanns prim (elems (ccTLDs curr_set)) (curr_set, errs) =
        Inr (c', errs @ concat (map (key_findings icanns prim curr_set) (elems (ccTLDs curr_set))))"
      using alias_loop_dots [OF True] by blast
    show ?thesis
    proof (cases "truthy (ccTLDs curr_set)")
      case t: True
      from Cons.IH [OF r, of "processed @ [(prim, c')]"
          "errs @ concat (map (key_findings icanns prim curr_set) (elems (ccTLDs curr_set)))"]
      obtain cs' new where "alias_sets icanns (processed @ [(prim, c')]) rest
          (errs @ concat (map (key_findings icanns prim curr_set) (elems (ccTLDs curr_set)))) =
          Inl (ValueError, cs',
               (errs @ concat (map (key_findings icanns prim curr_set)
                  (elems (ccTLDs curr_set)))) @ new)"
        by blast
      with t l show ?thesis
        unfolding e by simp
    next
      case f: False
      from Cons.IH [OF r, of "processed @ [(prim, curr_set)]" errs]
      obtain cs' new where "alias_sets icanns (processed @ [(prim, curr_set)]) rest errs =
          Inl (ValueError, cs', errs @ new)"
        by blast
      with f show ?thesis
        unfolding e by simp
    qed
  next
    case False
    then have t: "truthy (ccTLDs curr_set)"
      by (cases "ccTLDs curr_set") auto
    from alias_loop_no_dot [OF False, of icanns prim curr_set errs]
    obtain c' new where "alias_loop icanns prim (elems (ccTLDs curr_set)) (curr_set, errs) =
        Inl (ValueError, c', errs @ new)"
      by blast
    with t show ?thesis
      unfolding e by simp
  qed
qed

text \<open>
  C2. When every alias key of the model contains a dot, \<^verbatim>\<open>find_invalid_alias_eSLDs\<close>
  returns (the dictionary and the error list). When some alias key contains no dot, the
  two-way unpacking of \<^verbatim>\<open>aliased_site.split(".", 1)\<close> raises ValueError, and the
  exception leaves the function: the rest of the pass is not run, and the error list
  holds what had been appended until then.
\<close>

theorem find_invalid_alias_eSLDs_raises_without_dot:
  "(list_all has_dot (alias_keys check_sets) \<longrightarrow>
      (\<exists>r. find_invalid_alias_eSLDs icanns check_sets errs = Inr r))
   \<and> (\<not> list_all has_dot (alias_keys check_sets) \<longrightarrow>
      (\<exists>check_sets' new. find_invalid_alias_eSLDs icanns check_sets errs =
         Inl (ValueError, check_sets', errs @ new)))"
proof (intro conjI impI)
  assume "list_all has_dot (alias_keys check_sets)"
  then show "\<exists>r. find_invalid_alias_eSLDs icanns check_sets errs = Inr r"
    using alias_sets_dots [of check_sets icanns "[]" errs]
    by (auto simp: find_invalid_alias_eSLDs_def)
next
  assume "\<not> list_all has_dot (alias_keys check_sets)"
  then show "\<exists>check_sets' new. find_invalid_alias_eSLDs icanns check_sets errs =
         Inl (ValueError, check_sets', errs @ new)"
    by (simp add: find_invalid_alias_eSLDs_def alias_sets_no_dot)
qed

theorem find_invalid_alias_eSLDs_raises_without_dot_witness:
  "map_sum fst id (find_invalid_alias_eSLDs {''de''} [(''https://example.com'', set_nodot)] []) =
     Inl ValueError
   \<and> (\<exists>r. find_invalid_alias_eSLDs {''de''} [(''https://example.co'', set_co)] [] = Inr r)"
  using find_invalid_alias_eSLDs_raises_without_dot
          [of "[(''https://example.com'', set_nodot)]" "{''de''}" "[]"]
        find_invalid_alias_eSLDs_raises_without_dot
          [of "[(''https://example.co'', set_co)]" "{''de''}" "[]"]
  by (auto simp: alias_keys_def has_dot_def set_nodot_def set_co_def)

text \<open>When every alias key contains a dot, the findings are those of each set, key and
  sibling in turn.\<close>

lemma find_invalid_alias_eSLDs_findings:
  "list_all has_dot (alias_keys check_sets) \<Longrightarrow>
   \<exists>check_sets'. find_invalid_alias_eSLDs icanns check_sets errs =
     Inr (check_sets', errs @ concat (map (entry_findings icanns) check_sets))"
  using alias_sets_dots [of check_sets icanns "[]" errs]
  by (auto simp: find_invalid_alias_eSLDs_def)

text \<open>
  C5. The claim widens the accepted country codes with "com" exactly when the top-level
  label of the alias key is a recognized country code. The checker takes the key's
  \<^verbatim>\<open>aliased_tld\<close> from \<^verbatim>\<open>aliased_site.split(".", 1)\<close>, the whole of the key after its
  first dot, whereas a sibling's label is \<^verbatim>\<open>site.split(".")[-1]\<close>. For the key
  "https://example.co.uk" with "uk" recognized, the top-level label of the key is
  recognized, but the checker looks up "co.uk", does not accept "com", and reports the
  sibling "https://example.com".
\<close>

theorem alias_key_co_uk_rejects_com:
  "top_label ''https://example.co.uk'' \<in> {''uk''} \<and>
   map_sum id snd
     (find_invalid_alias_eSLDs {''uk''} [(''https://example.co.uk'', set_couk)] []) =
     Inr [''The provided country code: com, in: https://example.com is not a ICANN registered country code'']"
  by (simp add: top_label_def find_invalid_alias_eSLDs_def alias_body_def set_couk_def Let_def)

text \<open>For a key with a single dot the part after the first dot is the top-level label,
  and the example of the specification comes out as it says: one country-code finding
  naming "https://example.fr".\<close>

lemma single_dot_labels:
  "has_dot s \<Longrightarrow> \<not> has_dot (after_first_dot s) \<Longrightarrow>
   split_dot s = [before_first_dot s, after_first_dot s]"
proof (induction s)
  case Nil
  then show ?case by (simp add: has_dot_def)
next
  case (Cons c cs)
  show ?case
  proof (cases "c = CHR ''.''")
    case True
    with Cons.prems have "\<not> has_dot cs"
      by (simp add: after_first_dot_def)
    then have "split_dot cs = [cs]"
      by (induction cs) (auto simp: has_dot_def)
    with True show ?thesis
      by (simp add: before_first_dot_def after_first_dot_def)
  next
    case False
    with Cons show ?thesis
      by (simp add: before_first_dot_def after_first_dot_def has_dot_def)
  qed
qed

lemma single_dot_key_codes:
  "has_dot aliased_site \<Longrightarrow> \<not> has_dot (after_first_dot aliased_site) \<Longrightarrow>
   accepted_codes icanns aliased_site =
     (if top_label aliased_site \<in> icanns then insert ''com'' icanns else icanns)"
  by (simp add: accepted_codes_def top_label_def single_dot_labels)

lemma alias_key_co_example:
  "map_sum id snd
     (find_invalid_alias_eSLDs {''co'', ''de''} [(''https://example.co'', set_co)] []) =
     Inr [''The provided country code: fr, in: https://example.fr is not a ICANN registered country code'']"
  by (simp add: find_invalid_alias_eSLDs_def alias_body_def set_co_def Let_def)

section \<open>Properties of the checks of service sites\<close>

text \<open>
  C8. The claim asks for one finding whenever the request for /ads.txt succeeds (2xx),
  and the docstring of \<^verbatim>\<open>find_ads_txt\<close> asks for one whenever the answer is not a 4xx or
  5xx error. The checker tests \<^verbatim>\<open>r.status_code == 200\<close> only: a service site that answers
  204 yields no finding.
\<close>

theorem find_ads_txt_ignores_204:
  "error_list (find_ads_txt (world_status 204) [(''https://p.example'', set_svc)] run0) = []"
  by (simp add: ads_site_def ads_try_def world_status_def set_svc_def run0_def tick_def)

text \<open>On the status 200 the finding is made, whatever the state the earlier checks left.\<close>

lemma ads_site_200:
  "requests_get w (clock st) (service_site @ ''/ads.txt'') = Inr r \<Longrightarrow> status_code r = 200 \<Longrightarrow>
   error_list (ads_site w service_site st) =
     error_list st @ [''The service site '' @ service_site @
                      '' has an ads.txt file, this violates the policies for service sites'']"
  by (simp add: ads_site_def ads_try_def report_def tick_def)


text \<open>
  What the handlers of the three checks do with a failed request: nothing is appended if
  the text of the error contains the string of the check or the read-timeout string, and
  one "Unexpected error" finding naming the site otherwise.
\<close>

lemma service_site_handlers:
  "(requests_get w (clock st) (service_site @ ''/robots.txt'') = Inl inst \<longrightarrow>
      error_list (robots_site w service_site st) =
        (if str_contains ''Max retries exceeded with url: /robots.txt'' (str_inst w inst) \<or>
            str_contains ''Read timed out. (read timeout=10)'' (str_inst w inst)
         then error_list st
         else error_list st @ [''Unexpected error for service site: '' @ service_site @
                               ''; Received error:'' @ str_inst w inst]))
   \<and> (requests_get w (clock st) (service_site @ ''/robots.txt'') = Inr r \<and>
       status_code r = 200 \<and> requests_get w (Suc (clock st)) service_site = Inl inst \<longrightarrow>
      error_list (robots_site w service_site st) =
        (if str_contains ''Max retries exceeded with url: /robots.txt'' (str_inst w inst) \<or>
            str_contains ''Read timed out. (read timeout=10)'' (str_inst w inst)
         then error_list st
         else error_list st @ [''Unexpected error for service site: '' @ service_site @
                               ''; Received error:'' @ str_inst w inst]))
   \<and> (requests_get w (clock st) (service_site @ ''/ads.txt'') = Inl inst \<longrightarrow>
      error_list (ads_site w service_site st) =
        (if str_contains ''Max retries exceeded with url: /ads.txt'' (str_inst w inst) \<or>
            str_contains ''Read timed out. (read timeout=10)'' (str_inst w inst)
         then error_list st
         else error_list st @ [''Unexpected error for service site: '' @ service_site @
                               newline @ ''Received error:'' @ str_inst w inst]))
   \<and> (requests_get w (clock st) service_site = Inl inst \<longrightarrow>
      error_list (redirect_site w service_site st) =
        (if str_contains ''Max retries exceeded with url: /'' (str_inst w inst) \<or>
            str_contains ''Read timed out. (read timeout=10)'' (str_inst w inst)
         then error_list st
         else error_list st @ [''Unexpected error for service site: '' @ service_site @
                               newline @ ''Received error: '' @ str_inst w inst]))"
  by (simp add: robots_site_def robots_try_def ads_site_def ads_try_def redirect_site_def
      redirect_try_def report_def tick_def robots_retries_def ads_retries_def
      redirect_retries_def exception_timeout_def)

section \<open>Properties of find_invalid_well_known\<close>

lemma compare_fields_append:
  "compare_fields w js fps fs (a @ b) =
     (case compare_fields w js fps fs b of (new, raised) \<Rightarrow> (a @ new, raised))"
  by (induction fs arbitrary: b) (auto split: sum.splits)

lemma check_site_visit:
  "check_site w prim site st =
     \<lparr>error_list = error_list st @ visit_findings w (clock st) (MemberDoc prim site),
      clock = Suc (clock st)\<rparr>"
  by (simp add: check_site_def site_try_def report_def tick_def dict_get_def
      split: sum.splits pyval.splits option.splits)

lemma check_primary_visit:
  "check_primary w prim fps st =
     \<lparr>error_list = error_list st @ visit_findings w (clock st) (PrimaryDoc prim fps),
      clock = Suc (clock st)\<rparr>"
proof (cases "open_and_load_json w (clock st) (prim @ well_known)")
  case (Inl inst)
  then show ?thesis
    by (simp add: check_primary_def primary_try_def report_def tick_def)
next
  case (Inr doc)
  show ?thesis
  proof (cases "\<exists>js. doc = PDict js")
    case True
    then obtain js where d: "doc = PDict js" by blast
    obtain new raised where c: "compare_fields w js fps (schema_fields w js) [] = (new, raised)"
      by (cases "compare_fields w js fps (schema_fields w js) []")
    have "compare_fields w js fps (schema_fields w js) (error_list st) =
        (error_list st @ new, raised)"
      using compare_fields_append [of w js fps "schema_fields w js" "error_list st" "[]"]
      by (simp add: c)
    with Inr d c show ?thesis
      by (simp add: check_primary_def primary_try_def report_def tick_def split: option.splits)
  next
    case False
    with Inr show ?thesis
      by (cases doc) (simp_all add: check_primary_def primary_try_def report_def tick_def)
  qed
qed

lemma findings_from_append:
  "findings_from w n (xs @ ys) = findings_from w n xs @ findings_from w (n + length xs) ys"
  by (induction xs arbitrary: n) simp_all

lemma check_list_sites_visits:
  "check_list_sites w prim sites st =
     \<lparr>error_list = error_list st @ findings_from w (clock st) (map (MemberDoc prim) sites),
      clock = clock st + length sites\<rparr>"
proof (induction sites arbitrary: st)
  case Nil
  then show ?case by simp
next
  case (Cons site rest)
  show ?case
    by (simp add: Cons.IH check_site_visit del: visit_findings.simps)
qed

lemma well_known_ccTLDs_visits:
  "well_known_ccTLDs w prim d collected st =
     \<lparr>error_list = error_list st @
        findings_from w (clock st) (map (MemberDoc prim) (alias_visits d collected)),
      clock = clock st + length (alias_visits d collected)\<rparr>"
proof (induction d arbitrary: collected st)
  case Nil
  then show ?case by simp
next
  case (Cons kv rest)
  obtain k sites where kv: "kv = (k, sites)"
    by (cases kv)
  show ?case
    unfolding kv
    by (simp add: Cons.IH check_list_sites_visits findings_from_append add.assoc)
qed

lemma check_members_visits:
  "check_members w prim fps st =
     \<lparr>error_list = error_list st @
        findings_from w (clock st) (map (MemberDoc prim) (member_visits fps)),
      clock = clock st + length (member_visits fps)\<rparr>"
proof -
  have a: "(if truthy x then f (elems x) else f []) = f (elems x)" for x :: "'a list option"
    and f :: "'a list \<Rightarrow> 'b"
    by (cases x) auto
  have s1: "(if truthy (associated_sites fps)
             then check_list_sites w prim (elems (associated_sites fps)) st else st) =
            check_list_sites w prim (elems (associated_sites fps)) st"
    by (cases "associated_sites fps") auto
  have s2: "(if truthy (service_sites fps)
             then check_list_sites w prim (elems (service_sites fps)) st' else st') =
            check_list_sites w prim (elems (service_sites fps)) st'" for st'
    by (cases "service_sites fps") auto
  have s3: "(if truthy (ccTLDs fps)
             then well_known_ccTLDs w prim (elems (ccTLDs fps)) [] st' else st') =
            well_known_ccTLDs w prim (elems (ccTLDs fps)) [] st'" for st'
    by (cases "ccTLDs fps") auto
  show ?thesis
    by (simp add: check_members_def Let_def s1 s2 s3 check_list_sites_visits
        well_known_ccTLDs_visits member_visits_def findings_from_append add.assoc)
qed

lemma find_invalid_well_known_visits:
  "find_invalid_well_known w check_sets st =
     \<lparr>error_list = error_list st @
        findings_from w (clock st) (concat (map set_visits check_sets)),
      clock = clock st + length (concat (map set_visits check_sets))\<rparr>"
proof (induction check_sets arbitrary: st)
  case Nil
  then show ?case by simp
next
  case (Cons entry rest)
  obtain prim fps where e: "entry = (prim, fps)"
    by (cases entry)
  show ?case
    unfolding e
    by (simp add: Cons.IH check_primary_visit check_members_visits set_visits_def
        findings_from_append add.assoc del: visit_findings.simps)
qed

text \<open>
  C3. \<^verbatim>\<open>find_invalid_well_known\<close> and \<^verbatim>\<open>check_list_sites\<close> always return a state. Its
  error list is the one given, extended by the findings of each document visited, in
  order, over all the member sites and all the sets, and every visit is made as one
  request, whatever the earlier ones did. A visit whose document cannot be fetched or
  parsed contributes exactly one finding, naming the address and the text of the error;
  so does a visit whose document is not a JSON object.
  The handlers catch every exception of their try blocks and the statements outside them
  cannot raise, which is why the two functions have no exception among their outcomes.
\<close>

theorem well_known_failures_are_findings:
  "find_invalid_well_known w check_sets st =
     \<lparr>error_list = error_list st @
        findings_from w (clock st) (concat (map set_visits check_sets)),
      clock = clock st + length (concat (map set_visits check_sets))\<rparr>
   \<and> check_list_sites w prim sites st =
       \<lparr>error_list = error_list st @ findings_from w (clock st) (map (MemberDoc prim) sites),
        clock = clock st + length sites\<rparr>
   \<and> (open_and_load_json w n (visit_url v) = Inl inst \<longrightarrow>
        visit_findings w n v =
          [''Experienced an error when trying to access '' @ visit_url v @
           ''; error was: '' @ str_inst w inst])
   \<and> (open_and_load_json w n (visit_url v) = Inr doc \<and> (\<forall>js. doc \<noteq> PDict js) \<longrightarrow>
        visit_findings w n v =
          [''Experienced an error when trying to access '' @ visit_url v @
           ''; error was: '' @ str_inst w AttributeError])"
proof (intro conjI impI)
  show "find_invalid_well_known w check_sets st =
     \<lparr>error_list = error_list st @
        findings_from w (clock st) (concat (map set_visits check_sets)),
      clock = clock st + length (concat (map set_visits check_sets))\<rparr>"
    by (rule find_invalid_well_known_visits)
  show "check_list_sites w prim sites st =
       \<lparr>error_list = error_list st @ findings_from w (clock st) (map (MemberDoc prim) sites),
        clock = clock st + length sites\<rparr>"
    by (rule check_list_sites_visits)
next
  assume "open_and_load_json w n (visit_url v) = Inl inst"
  then show "visit_findings w n v =
          [''Experienced an error when trying to access '' @ visit_url v @
           ''; error was: '' @ str_inst w inst]"
    by (cases v)
       (simp_all add: check_primary_def primary_try_def check_site_def site_try_def
          report_def tick_def well_known_def)
next
  assume "open_and_load_json w n (visit_url v) = Inr doc \<and> (\<forall>js. doc \<noteq> PDict js)"
  then show "visit_findings w n v =
          [''Experienced an error when trying to access '' @ visit_url v @
           ''; error was: '' @ str_inst w AttributeError]"
    by (cases v; cases doc)
       (simp_all add: check_primary_def primary_try_def check_site_def site_try_def
          report_def tick_def well_known_def)
qed

theorem well_known_failures_are_findings_witness:
  "find_invalid_well_known (world_failing ''timed out'')
     [(''https://a.example'', set_two_aliases)] run0 =
   \<lparr>error_list =
      [''Experienced an error when trying to access https://a.example/.well-known/first-party-set.json; error was: timed out'',
       ''Experienced an error when trying to access https://b.example/.well-known/first-party-set.json; error was: timed out'',
       ''Experienced an error when trying to access https://a.de/.well-known/first-party-set.json; error was: timed out'',
       ''Experienced an error when trying to access https://a.de/.well-known/first-party-set.json; error was: timed out'',
       ''Experienced an error when trying to access https://b.de/.well-known/first-party-set.json; error was: timed out''],
    clock = 5\<rparr>"
proof -
  let ?w = "world_failing ''timed out''"
  have f: "visit_findings ?w n v =
      [''Experienced an error when trying to access '' @ visit_url v @
       ''; error was: timed out'']" for n v
    using well_known_failures_are_findings [where w = ?w and n = n and v = v
        and inst = "Raised ''timed out''"]
    by (simp add: world_failing_def str_inst_def)
  have v: "set_visits (''https://a.example'', set_two_aliases) =
      [PrimaryDoc ''https://a.example'' set_two_aliases,
       MemberDoc ''https://a.example'' ''https://b.example'',
       MemberDoc ''https://a.example'' ''https://a.de'',
       MemberDoc ''https://a.example'' ''https://a.de'',
       MemberDoc ''https://a.example'' ''https://b.de'']"
    by (simp add: set_visits_def member_visits_def set_two_aliases_def)
  show ?thesis
    using well_known_failures_are_findings [where w = ?w and st = run0
        and check_sets = "[(''https://a.example'', set_two_aliases)]", THEN conjunct1]
    by (simp add: v f run0_def del: visit_findings.simps)
qed

lemma compare_fields_findings:
  "compare_fields w js fps fs errs = (errs', raised) \<Longrightarrow>
   \<exists>new. errs' = errs @ new \<and>
         (\<forall>e\<in>set new. \<exists>g\<in>set fs. \<exists>s. e = field_finding_prefix g @ s)"
proof (induction fs arbitrary: errs)
  case Nil
  then show ?case by simp
next
  case (Cons field rest)
  show ?case
  proof (cases "field_sym_difference js fps field")
    case (Inl e)
    with Cons.prems show ?thesis by simp
  next
    case (Inr d)
    show ?thesis
    proof (cases "d = {}")
      case True
      with Inr Cons.prems have "compare_fields w js fps rest errs = (errs', raised)"
        by simp
      from Cons.IH [OF this] show ?thesis by auto
    next
      case False
      show ?thesis
      proof (cases "str_sorted w d")
        case (Inl e)
        with Inr False Cons.prems show ?thesis by simp
      next
        case s: (Inr s)
        with Inr False Cons.prems
        have "compare_fields w js fps rest (errs @ [field_finding_prefix field @ s]) =
            (errs', raised)"
          by (simp add: field_finding_prefix_def)
        from Cons.IH [OF this] obtain new where
          n: "errs' = (errs @ [field_finding_prefix field @ s]) @ new"
          and a: "\<forall>e\<in>set new. \<exists>g\<in>set rest. \<exists>s. e = field_finding_prefix g @ s"
          by blast
        show ?thesis
        proof (intro exI conjI)
          show "errs' = errs @ ((field_finding_prefix field @ s) # new)"
            using n by simp
          show "\<forall>e\<in>set ((field_finding_prefix field @ s) # new).
              \<exists>g\<in>set (field # rest). \<exists>s. e = field_finding_prefix g @ s"
            using a by auto
        qed
      qed
    qed
  qed
qed

lemma field_prefixes_differ:
  "g \<in> set acceptable_fields \<Longrightarrow> f \<in> set acceptable_fields \<Longrightarrow> g \<noteq> f \<Longrightarrow>
   \<not> startswith (field_finding_prefix g @ s) (field_finding_prefix f)"
  by (auto simp: acceptable_fields_def startswith_def field_finding_prefix_def)

lemma unreachable_is_no_field_finding:
  "\<not> startswith (''Experienced an error when trying to access '' @ s) (field_finding_prefix f)"
  by (simp add: startswith_def field_finding_prefix_def)

lemma schema_fields_shared:
  "set (schema_fields w js) =
     {f \<in> set (field_order w). f \<in> set acceptable_fields \<and> f \<in> fst ` set js}"
  by (auto simp: schema_fields_def)

text \<open>
  C6. The fields the live check compares are those that are both recognized and keys of
  the fetched document. When the document of a primary omits a recognized field, the
  check of that primary keeps the error list it was given and adds no finding about
  that field, whatever the submission lists for it.
\<close>

theorem omitted_field_is_not_compared:
  "set (schema_fields w json_schema) \<subseteq> set acceptable_fields \<inter> fst ` set json_schema
   \<and> (open_and_load_json w (clock st) (prim @ ''/.well-known/first-party-set.json'') =
         Inr (PDict json_schema) \<and>
       field \<in> set acceptable_fields \<and> field \<notin> fst ` set json_schema \<longrightarrow>
       take (length (error_list st)) (error_list (check_primary w prim fps st)) = error_list st \<and>
       list_all (\<lambda>e. \<not> startswith e (field_finding_prefix field))
         (new_findings st (check_primary w prim fps st)))"
proof (intro conjI impI)
  show "set (schema_fields w json_schema) \<subseteq> set acceptable_fields \<inter> fst ` set json_schema"
    by (auto simp: schema_fields_shared)
next
  assume a: "open_and_load_json w (clock st) (prim @ ''/.well-known/first-party-set.json'') =
         Inr (PDict json_schema) \<and>
       field \<in> set acceptable_fields \<and> field \<notin> fst ` set json_schema"
  obtain errs' raised where c: "compare_fields w json_schema fps (schema_fields w json_schema)
      (error_list st) = (errs', raised)"
    by (cases "compare_fields w json_schema fps (schema_fields w json_schema) (error_list st)")
  from compare_fields_findings [OF c] obtain new where
    n: "errs' = error_list st @ new"
    and g: "\<forall>e\<in>set new. \<exists>g\<in>set (schema_fields w json_schema). \<exists>s. e = field_finding_prefix g @ s"
    by blast
  have ok: "\<forall>e\<in>set new. \<not> startswith e (field_finding_prefix field)"
  proof
    fix e assume "e \<in> set new"
    with g obtain g' s where g': "g' \<in> set (schema_fields w json_schema)"
      and e: "e = field_finding_prefix g' @ s"
      by blast
    from g' have "g' \<in> set acceptable_fields" and "g' \<in> fst ` set json_schema"
      by (simp_all add: schema_fields_shared)
    with a have "g' \<noteq> field" by auto
    with \<open>g' \<in> set acceptable_fields\<close> a show "\<not> startswith e (field_finding_prefix field)"
      unfolding e by (simp add: field_prefixes_differ)
  qed
  have r: "error_list (check_primary w prim fps st) =
      error_list st @ new @
        (case raised of None \<Rightarrow> []
         | Some inst \<Rightarrow> [''Experienced an error when trying to access '' @
                         (prim @ well_known @ ''; error was: '' @ str_inst w inst)])"
    using a c n
    by (simp add: check_primary_def primary_try_def well_known_def report_def tick_def
        split: option.splits)
  show "take (length (error_list st)) (error_list (check_primary w prim fps st)) = error_list st"
    by (simp add: r)
  show "list_all (\<lambda>e. \<not> startswith e (field_finding_prefix field))
         (new_findings st (check_primary w prim fps st))"
    using ok unreachable_is_no_field_finding
    by (auto simp: r new_findings_def list_all_iff split: option.splits)
qed

theorem omitted_field_is_not_compared_witness:
  "list_all (\<lambda>e. \<not> startswith e (field_finding_prefix ''associatedSites''))
     (new_findings run0 (check_primary world_primary_only ''https://a.example'' set_a_assoc run0))
   \<and> new_findings run0
        (check_primary world_primary_only ''https://a.example'' set_a_assoc run0) = []"
proof -
  have o: "open_and_load_json world_primary_only (clock run0)
      (''https://a.example'' @ ''/.well-known/first-party-set.json'') =
      Inr (PDict [(''primary'', PStr ''https://a.example'')])"
    by (simp add: world_primary_only_def)
  have f: "''associatedSites'' \<in> set acceptable_fields \<and>
      ''associatedSites'' \<notin> fst ` set [(''primary'', PStr ''https://a.example'')]"
    by (simp add: acceptable_fields_def)
  have "list_all (\<lambda>e. \<not> startswith e (field_finding_prefix ''associatedSites''))
      (new_findings run0 (check_primary world_primary_only ''https://a.example'' set_a_assoc run0))"
    using omitted_field_is_not_compared [where w = world_primary_only and st = run0
        and prim = "''https://a.example''" and fps = set_a_assoc
        and json_schema = "[(''primary'', PStr ''https://a.example'')]"
        and field = "''associatedSites''"] o f
    by blast
  moreover have "new_findings run0
      (check_primary world_primary_only ''https://a.example'' set_a_assoc run0) = []"
    by (simp add: new_findings_def check_primary_def primary_try_def
        schema_fields_def acceptable_fields_def field_sym_difference_def dict_get_def
        world_primary_only_def run0_def set_a_assoc_def well_known_def tick_def)
  ultimately show ?thesis by blast
qed

end
